theory Spec2Isabelle
  imports Main "HOL-Library.Char_ord" "HOL-Library.List_Lexorder" "HOL-Library.Multiset"
begin

section \<open>JavaScript values used by ng-swagger-gen\<close>

text \<open>
  The generator is one JavaScript file. Its functions throw (reading a property of
  \<open>undefined\<close>, calling a missing method, reading an undeclared identifier) or
  leave through \<open>process.exit(1)\<close>; both end the run, and both are values here.
\<close>

datatype error = TypeError | ReferenceError | Exit | OutOfFuel

text \<open>
  JavaScript strings are \<open>string\<close>. \<open>String.prototype.indexOf\<close> answers \<open>-1\<close>
  when the pattern does not occur; here that answer is \<open>None\<close>, and a test
  \<open>pos >= 0\<close> of the source is a test for \<open>Some\<close>.
\<close>

fun indexOf :: "string \<Rightarrow> string \<Rightarrow> nat option" where
  "indexOf [] pat = (if pat = [] then Some 0 else None)"
| "indexOf (c # cs) pat =
     (if take (length pat) (c # cs) = pat then Some 0
      else (case indexOf cs pat of None \<Rightarrow> None | Some i \<Rightarrow> Some (Suc i)))"

fun lastIndexOf :: "string \<Rightarrow> char \<Rightarrow> nat option" where
  "lastIndexOf [] c = None"
| "lastIndexOf (x # xs) c =
     (case lastIndexOf xs c of
        Some i \<Rightarrow> Some (Suc i)
      | None \<Rightarrow> if x = c then Some 0 else None)"

text \<open>
  \<open>s.substr(start, length)\<close> takes \<open>length\<close> characters from position \<open>start\<close>
  and stops at the end of the string; \<open>s.substr(start)\<close> takes the rest.
\<close>

definition substr :: "string \<Rightarrow> nat \<Rightarrow> nat \<Rightarrow> string" where
  "substr s start len = take len (drop start s)"

definition substrFrom :: "string \<Rightarrow> nat \<Rightarrow> string" where
  "substrFrom s start = drop start s"

text \<open>
  \<open>s.replace(pat, rep)\<close> with a string pattern replaces the first occurrence only.
  The two replacement texts of the source, \<open>${params.\<close> and \<open>Array<\<close>, hold none of
  the substitution patterns (\<open>$$\<close>, \<open>$&\<close>, \<open>$`\<close>, \<open>$'\<close>), so they are inserted as
  they are.
\<close>

definition replace :: "string \<Rightarrow> string \<Rightarrow> string \<Rightarrow> string" where
  "replace s pat rep =
     (case indexOf s pat of
        None \<Rightarrow> s
      | Some i \<Rightarrow> take i s @ rep @ drop (i + length pat) s)"

text \<open>
  The value \<open>propertyType\<close> returns is a JavaScript string, \<open>null\<close> (from
  \<open>simpleRef\<close> on an empty reference), or, for an inline object, a fresh object
  holding \<open>allTypes\<close> and a \<open>toString\<close> that answers the rendered signature.
  \<open>Undefined\<close> is what reading a missing property gives.
\<close>

datatype jsType = Undefined | Null | Str string | Inline "jsType list" string

text \<open>String conversion, as \<open>+\<close> with a string operand applies it.\<close>

fun toStr :: "jsType \<Rightarrow> string" where
  "toStr Undefined = ''undefined''"
| "toStr Null = ''null''"
| "toStr (Str s) = s"
| "toStr (Inline ts d) = d"

text \<open>
  Strict equality, as \<open>Array.prototype.indexOf\<close> uses it: strings by content,
  an object only with itself. Every inline type is a newly created object, so two of
  them are never equal.
\<close>

fun strictEq :: "jsType \<Rightarrow> jsType \<Rightarrow> bool" where
  "strictEq Undefined Undefined = True"
| "strictEq Null Null = True"
| "strictEq (Str a) (Str b) = (a = b)"
| "strictEq _ _ = False"

definition arrayHas :: "jsType list \<Rightarrow> jsType \<Rightarrow> bool" where
  "arrayHas xs x = list_ex (strictEq x) xs"

section \<open>Schema fragments and type resolution\<close>

text \<open>
  A schema fragment with the members \<open>propertyType\<close> reads: \<open>$ref\<close>, \<open>x-type\<close>,
  \<open>type\<close>, \<open>items\<close>, \<open>properties\<close> (in enumeration order) and
  \<open>additionalProperties\<close>. A member that is absent is \<open>None\<close>.
\<close>

datatype schema =
  Schema (s_ref: "string option") (s_xtype: "string option") (s_type: "string option")
         (s_items: "schema option") (s_properties: "(string \<times> schema) list option")
         (s_additionalProperties: "schema option")

definition simpleRef :: "string option \<Rightarrow> string option" where
  "simpleRef ref =
     (case ref of
        None \<Rightarrow> None
      | Some r \<Rightarrow>
          if r = [] then None
          else (case lastIndexOf r (CHR ''/'') of
                  Some index \<Rightarrow> Some (substrFrom r (index + 1))
                | None \<Rightarrow> Some r))"

text \<open>The branch of \<open>propertyType\<close> for a non-empty \<open>x-type\<close> vendor extension.\<close>

definition xTypeOverride :: "string \<Rightarrow> jsType" where
  "xTypeOverride xt =
     (let type0 = replace xt ''List<'' ''Array<'';
          type1 = (case indexOf type0 ''Array<'' of
                     Some pos \<Rightarrow> substr type0 (length ''Array<'') (length type0 - 1) @ ''[]''
                   | None \<Rightarrow> type0)
      in if length type1 = 0 then Str ''void'' else Str type1)"

text \<open>
  The \<open>object\<close> case of \<open>propertyType\<close>: the loop over the member properties, then
  the index signature for \<open>additionalProperties\<close>. The state is
  \<open>(def, first, allTypes)\<close>.
\<close>

definition inlineMember :: "string \<times> jsType \<Rightarrow> string \<times> bool \<times> jsType list \<Rightarrow> string \<times> bool \<times> jsType list" where
  "inlineMember m st =
     (case (m, st) of ((name, ty), (def, first, allTypes)) \<Rightarrow>
        ((if first then def else def @ '', '') @ name @ '': '' @ toStr ty,
         False,
         (if arrayHas allTypes ty then allTypes else allTypes @ [ty])))"

definition inlineObject :: "(string \<times> jsType) list \<Rightarrow> jsType option \<Rightarrow> jsType" where
  "inlineObject members addl =
     (case fold inlineMember members (''{'', True, []) of (def, first, allTypes) \<Rightarrow>
        (case addl of
           None \<Rightarrow> Inline allTypes (def @ ''}'')
         | Some ty \<Rightarrow>
             Inline (if arrayHas allTypes ty then allTypes else allTypes @ [ty])
                    ((if first then def else def @ '', '') @ ''[key: string]: '' @ toStr ty @ ''}'')))"

fun propertyType :: "schema option \<Rightarrow> jsType" where
  "propertyType None = Str ''void''"
| "propertyType (Some (Schema ref xt ty items props addl)) =
     (if ref \<noteq> None then (case simpleRef ref of None \<Rightarrow> Null | Some s \<Rightarrow> Str s)
      else if xt \<noteq> None \<and> xt \<noteq> Some [] then xTypeOverride (case xt of Some x \<Rightarrow> x | None \<Rightarrow> [])
      else if ty = Some ''string'' then Str ''string''
      else if ty = Some ''array'' then Str (toStr (propertyType items) @ ''[]'')
      else if ty = Some ''integer'' \<or> ty = Some ''number'' then Str ''number''
      else if ty = Some ''boolean'' then Str ''Boolean''
      else if ty = Some ''object'' then
        inlineObject
          (map (\<lambda>np. (fst np, propertyType (Some (snd np)))) (case props of None \<Rightarrow> [] | Some ps \<Rightarrow> ps))
          (case addl of None \<Rightarrow> None | Some a \<Rightarrow> Some (propertyType (Some a)))
      else Str ''any'')"

definition toPathExpression :: "string option \<Rightarrow> string" where
  "toPathExpression path = replace (case path of None \<Rightarrow> [] | Some p \<Rightarrow> p) ''{'' ''${params.''"


section \<open>Objects, arrays and sets\<close>

text \<open>
  A plain object is the list of its own properties in enumeration order, which is the
  order \<open>for (k in obj)\<close> visits: keys that are array indices (canonical decimal
  numerals below \<open>2^32 - 1\<close>, such as the status code \<open>200\<close>) first, ascending, then
  the other keys in the order they were created. An object the generator reads from the
  document is given in that order.

  Reading \<open>obj[k]\<close> where \<open>obj\<close> has no property \<open>k\<close> of its own gives the member
  \<open>k\<close> of \<open>Object.prototype\<close> when there is one (a function; for \<open>__proto__\<close> the
  prototype itself) and \<open>undefined\<close> otherwise. \<open>objGet\<close> reads the own properties,
  and \<open>inherited\<close> says whether a read finds such a member instead. The generator
  reads with a key that need not be an own key in four places: \<open>this.models[dep]\<close> and
  \<open>services[tag]\<close>, where a member that is found is used, and \<open>models[parentName]\<close>
  and \<open>models[removeBrackets(resultType)]\<close>, where it has the effect of nothing being
  found. An assignment to the key \<open>__proto__\<close> would replace the prototype and create
  no property: no name that the generator assigns under (of a definition, a property, a
  tag, a status code) is taken to be \<open>__proto__\<close>.
\<close>

type_synonym 'v jsobj = "(string \<times> 'v) list"

definition isDigit :: "char \<Rightarrow> bool" where
  "isDigit c = (CHR ''0'' \<le> c \<and> c \<le> CHR ''9'')"

definition digitsToNat :: "string \<Rightarrow> nat" where
  "digitsToNat s = foldl (\<lambda>n c. 10 * n + (of_char c - 48)) 0 s"

definition isArrayIndex :: "string \<Rightarrow> bool" where
  "isArrayIndex s =
     (s \<noteq> [] \<and> list_all isDigit s \<and> (length s = 1 \<or> hd s \<noteq> CHR ''0'')
      \<and> digitsToNat s < 4294967295)"

definition objGet :: "string \<Rightarrow> 'v jsobj \<Rightarrow> 'v option" where
  "objGet k obj = map_of obj k"

definition objectPrototype :: "string list" where
  "objectPrototype =
     [''constructor'', ''__defineGetter__'', ''__defineSetter__'', ''hasOwnProperty'',
      ''__lookupGetter__'', ''__lookupSetter__'', ''isPrototypeOf'', ''propertyIsEnumerable'',
      ''toString'', ''valueOf'', ''__proto__'', ''toLocaleString'']"

definition inherited :: "string \<Rightarrow> 'v jsobj \<Rightarrow> bool" where
  "inherited k obj = (objGet k obj = None \<and> k \<in> set objectPrototype)"

fun insertIndexKey :: "string \<Rightarrow> 'v \<Rightarrow> 'v jsobj \<Rightarrow> 'v jsobj" where
  "insertIndexKey k v [] = [(k, v)]"
| "insertIndexKey k v (kv # rest) =
     (if isArrayIndex (fst kv) \<and> digitsToNat (fst kv) < digitsToNat k
      then kv # insertIndexKey k v rest
      else (k, v) # kv # rest)"

text \<open>\<open>obj[k] = v\<close>: an existing property keeps its place, a new one is created.\<close>

definition objSet :: "string \<Rightarrow> 'v \<Rightarrow> 'v jsobj \<Rightarrow> 'v jsobj" where
  "objSet k v obj =
     (if objGet k obj \<noteq> None then map (\<lambda>kv. if fst kv = k then (k, v) else kv) obj
      else if isArrayIndex k then insertIndexKey k v obj
      else obj @ [(k, v)])"

text \<open>\<open>delete obj[k]\<close>.\<close>

definition objDelete :: "string \<Rightarrow> 'v jsobj \<Rightarrow> 'v jsobj" where
  "objDelete k obj = filter (\<lambda>kv. fst kv \<noteq> k) obj"

text \<open>
  A \<open>Set\<close> keeps its members in insertion order, each once; \<open>forEach\<close> visits them
  in that order.
\<close>

definition setAdd :: "'a \<Rightarrow> 'a list \<Rightarrow> 'a list" where
  "setAdd x xs = (if x \<in> set xs then xs else xs @ [x])"

text \<open>A loop whose body may throw: the first error ends it.\<close>

fun forEachE :: "('a \<Rightarrow> 's \<Rightarrow> error + 's) \<Rightarrow> 'a list \<Rightarrow> 's \<Rightarrow> error + 's" where
  "forEachE f [] s = Inr s"
| "forEachE f (x # xs) s = (case f x s of Inl e \<Rightarrow> Inl e | Inr s' \<Rightarrow> forEachE f xs s')"

text \<open>
  \<open>Array.prototype.sort\<close> with a comparison function is a stable sort (ECMAScript 2019;
  earlier V8 versions used insertion sort for arrays of up to ten elements). It is
  modelled as insertion sort: an element moves behind exactly those it compares greater
  than, so elements that compare equal keep their order.
\<close>

fun sortInsert :: "('a \<Rightarrow> 'a \<Rightarrow> int) \<Rightarrow> 'a \<Rightarrow> 'a list \<Rightarrow> 'a list" where
  "sortInsert cmp x [] = [x]"
| "sortInsert cmp x (y # ys) =
     (if cmp x y \<le> 0 then x # y # ys else y # sortInsert cmp x ys)"

fun arraySort :: "('a \<Rightarrow> 'a \<Rightarrow> int) \<Rightarrow> 'a list \<Rightarrow> 'a list" where
  "arraySort cmp [] = []"
| "arraySort cmp (x # xs) = sortInsert cmp x (arraySort cmp xs)"

text \<open>
  \<open>if (arr.length > 0) arr[arr.length - 1].last = true\<close>, with the assignment to the
  element given as \<open>upd\<close>.
\<close>

definition markLast :: "('a \<Rightarrow> 'a) \<Rightarrow> 'a list \<Rightarrow> 'a list" where
  "markLast upd arr =
     (if length arr > 0 then arr[length arr - 1 := upd (arr ! (length arr - 1))] else arr)"

text \<open>
  The relational operators on two values that are strings or \<open>undefined\<close> (here
  \<open>None\<close>): two strings compare by their code units, and a comparison with
  \<open>undefined\<close> is false either way.
\<close>

definition jsLess :: "string option \<Rightarrow> string option \<Rightarrow> bool" where
  "jsLess a b = (case a of None \<Rightarrow> False | Some x \<Rightarrow> (case b of None \<Rightarrow> False | Some y \<Rightarrow> x < y))"

section \<open>Models\<close>

text \<open>
  The descriptors keep the members that the construction, the dependency graph and the
  filter read or that a property below is about. Members that only carry text for the templates
  (file names, comments, class names, enum constant names, the lower-cased method, the
  flags that repeat \<open>paramIn\<close>) are left out. Of these only the comments can throw,
  and that is kept.

  A \<open>description\<close> member, as \<open>toComments\<close> sees it: absent or some other falsy
  value, a string, or a truthy value that is not a string (a number, an object).
  \<open>toComments\<close> evaluates \<open>(text || "").split("\n")\<close>, and only a string has a
  \<open>split\<close>. The text of the comment is not kept.
\<close>

datatype description = NoDescription | Description string | NotAString

definition toComments :: "description \<Rightarrow> error + unit" where
  "toComments text = (case text of NotAString \<Rightarrow> Inl TypeError | _ \<Rightarrow> Inr ())"

record propertyDescriptor =
  propertyName :: string
  propertyRequired :: bool
  propertyTypeV :: jsType
  prop_last :: bool

record enumDescriptor =
  enumValue :: string
  enum_last :: bool

text \<open>
  A model descriptor. \<open>modelParent\<close> is first the parent's name and, once the
  hierarchy is linked, the parent descriptor itself; \<open>modelSubclasses\<close> holds
  descriptors. A descriptor is an object shared by every place that holds it, and there is
  exactly one per key of \<open>models\<close>, whose \<open>modelName\<close> is that key: a reference to
  a descriptor is modelled as that key.
  \<open>modelDependencies\<close> holds what the resolver found under the names it was given
  (\<open>this.models[dep]\<close>): the descriptor under an own key of \<open>models\<close>, or else a
  member of \<open>Object.prototype\<close>.
  \<open>modelProperties\<close> and \<open>modelDependencies\<close> are \<open>None\<close> while the member
  has not been assigned. (\<open>descriptor.properties\<close> holds the same property descriptors
  as \<open>modelProperties\<close>, keyed by name, and is not repeated.)
\<close>

datatype modelRef = Model string | Inherited string

record modelDescriptor =
  modelName :: string
  modelParent :: "string option"
  modelIsObject :: bool
  modelIsEnum :: bool
  modelProperties :: "propertyDescriptor list option"
  modelEnumValues :: "enumDescriptor list option"
  modelSubclasses :: "string list"
  modelDependencies :: "modelRef list option"

text \<open>
  A property of a definition (its \<open>description\<close>, and the fragment that
  \<open>propertyType\<close> reads), an element of \<open>allOf\<close>, and a definition of
  \<open>swagger.definitions\<close>.
\<close>

record propertyDef =
  pr_description :: description
  pr_fragment :: schema

record allOfItem =
  a_ref :: "string option"
  a_properties :: "(string \<times> propertyDef) list option"
  a_required :: "string list option"

record modelDef =
  d_description :: description
  d_allOf :: "allOfItem list option"
  d_type :: "string option"
  d_properties :: "(string \<times> propertyDef) list option"
  d_required :: "string list option"
  d_enum :: "string list option"

text \<open>The body of the loop of \<open>processProperties\<close>, and the loop.\<close>

definition processProperty ::
  "string list \<Rightarrow> string \<times> propertyDef \<Rightarrow> propertyDescriptor jsobj \<Rightarrow> error + propertyDescriptor jsobj" where
  "processProperty requiredProperties np result =
     (case toComments (pr_description (snd np)) of
        Inl e \<Rightarrow> Inl e
      | Inr u \<Rightarrow>
          Inr (objSet (fst np)
                 \<lparr>propertyName = fst np,
                  propertyRequired = (fst np \<in> set requiredProperties),
                  propertyTypeV = propertyType (Some (pr_fragment (snd np))),
                  prop_last = False\<rparr> result))"

definition processProperties ::
  "(string \<times> propertyDef) list \<Rightarrow> string list \<Rightarrow> error + propertyDescriptor jsobj" where
  "processProperties properties requiredProperties =
     forEachE (processProperty requiredProperties) properties []"

text \<open>
  The comparison function handed to \<open>sort\<close> in \<open>processModels\<close> reads
  \<open>a.modelName\<close> and \<open>b.modelName\<close>. Its arguments are property descriptors, which
  \<open>processProperties\<close> creates with the members \<open>propertyName\<close>,
  \<open>propertyComments\<close>, \<open>propertyRequired\<close> and \<open>propertyType\<close>: they have no
  \<open>modelName\<close>, and reading it gives \<open>undefined\<close>.
\<close>

definition property_modelName :: "propertyDescriptor \<Rightarrow> string option" where
  "property_modelName p = None"

definition propertyCompare :: "propertyDescriptor \<Rightarrow> propertyDescriptor \<Rightarrow> int" where
  "propertyCompare a b =
     (if jsLess (property_modelName a) (property_modelName b) then -1
      else if jsLess (property_modelName b) (property_modelName a) then 1 else 0)"

text \<open>Lines 442 to 456: the ordered property sequence of a descriptor.\<close>

definition orderProperties :: "propertyDescriptor jsobj \<Rightarrow> propertyDescriptor list" where
  "orderProperties properties =
     markLast (\<lambda>p. p\<lparr>prop_last := True\<rparr>) (arraySort propertyCompare (map snd properties))"

definition enumDescriptors :: "string list \<Rightarrow> enumDescriptor list" where
  "enumDescriptors enumValues =
     map (\<lambda>i. \<lparr>enumValue = enumValues ! i, enum_last = (i = length enumValues - 1)\<rparr>)
         [0 ..< length enumValues]"

definition nthOrEmpty :: "allOfItem list \<Rightarrow> nat \<Rightarrow> allOfItem" where
  "nthOrEmpty xs i =
     (if i < length xs then xs ! i
      else \<lparr>a_ref = None, a_properties = None, a_required = None\<rparr>)"

definition orEmpty :: "'a list option \<Rightarrow> 'a list" where
  "orEmpty x = (case x of None \<Rightarrow> [] | Some xs \<Rightarrow> xs)"

text \<open>
  The body of the first loop of \<open>processModels\<close>: the descriptor of one definition.
  The descriptor is built after the kind of the definition is settled, its comment before
  its properties.
\<close>

definition describeModel :: "string \<Rightarrow> modelDef \<Rightarrow> error + modelDescriptor" where
  "describeModel name model =
     (let object = (\<lambda>parent properties requiredProperties.
            case toComments (d_description model) of
              Inl e \<Rightarrow> Inl e
            | Inr u \<Rightarrow>
                (case processProperties properties requiredProperties of
                   Inl e \<Rightarrow> Inl e
                 | Inr described \<Rightarrow>
                     Inr \<lparr>modelName = name, modelParent = parent,
                          modelIsObject = True, modelIsEnum = False,
                          modelProperties = Some (orderProperties described),
                          modelEnumValues = None, modelSubclasses = [],
                          modelDependencies = None\<rparr>))
      in if d_allOf model \<noteq> None \<and> length (orEmpty (d_allOf model)) > 0 then
           object (simpleRef (a_ref (nthOrEmpty (orEmpty (d_allOf model)) 0)))
                  (orEmpty (a_properties (nthOrEmpty (orEmpty (d_allOf model)) 1)))
                  (orEmpty (a_required (nthOrEmpty (orEmpty (d_allOf model)) 1)))
         else if d_type model = Some ''object'' then
           object None (orEmpty (d_properties model)) (orEmpty (d_required model))
         else if d_type model = Some ''string'' then
           (if length (orEmpty (d_enum model)) = 0 then Inl Exit
            else (case toComments (d_description model) of
                    Inl e \<Rightarrow> Inl e
                  | Inr u \<Rightarrow>
                      Inr \<lparr>modelName = name, modelParent = None,
                           modelIsObject = False, modelIsEnum = True,
                           modelProperties = None,
                           modelEnumValues = Some (enumDescriptors (orEmpty (d_enum model))),
                           modelSubclasses = [], modelDependencies = None\<rparr>))
         else Inl Exit)"

definition describeModels :: "modelDef jsobj \<Rightarrow> error + modelDescriptor jsobj" where
  "describeModels definitions =
     forEachE (\<lambda>nd models.
                 case describeModel (fst nd) (snd nd) of
                   Inl e \<Rightarrow> Inl e
                 | Inr descriptor \<Rightarrow> Inr (objSet (fst nd) descriptor models))
              definitions []"

text \<open>
  The second loop: \<open>model.modelParent = models[parentName]\<close> and the push onto the
  parent's \<open>modelSubclasses\<close>, which throws when no model has the parent's name (a
  member of \<open>Object.prototype\<close> found instead has no \<open>modelSubclasses\<close> either). An
  empty parent name is falsy and is left alone.
\<close>

definition linkHierarchy :: "string \<Rightarrow> modelDescriptor jsobj \<Rightarrow> error + modelDescriptor jsobj" where
  "linkHierarchy name models =
     (case objGet name models of
        None \<Rightarrow> Inr models
      | Some model \<Rightarrow>
          if \<not> modelIsObject model then Inr models
          else (case modelParent model of
                  None \<Rightarrow> Inr models
                | Some parentName \<Rightarrow>
                    if parentName = [] then Inr models
                    else (case objGet parentName models of
                            None \<Rightarrow> Inl TypeError
                          | Some parent \<Rightarrow>
                              Inr (objSet parentName
                                     (parent\<lparr>modelSubclasses := modelSubclasses parent @ [name]\<rparr>)
                                     models))))"

section \<open>The dependency resolver\<close>

definition removeBrackets :: "jsType \<Rightarrow> error + jsType" where
  "removeBrackets ty =
     (case ty of
        Inline ts d \<Rightarrow> Inl TypeError
      | Str s \<Rightarrow> (case indexOf s ''['' of
                    Some pos \<Rightarrow> Inr (Str (substr s 0 pos))
                  | None \<Rightarrow> Inr (Str s))
      | _ \<Rightarrow> Inr ty)"

text \<open>
  \<open>DependenciesResolver\<close>: \<open>ownType\<close> is \<open>Undefined\<close> when the constructor is
  called with one argument, as \<open>processServices\<close> does. \<open>dependencies\<close> holds
  what \<open>this.models[dep]\<close> gave, whenever that was truthy: a descriptor, or a member
  of \<open>Object.prototype\<close> when \<open>models\<close> has no own property of that name.
\<close>

record resolver =
  r_models :: "modelDescriptor jsobj"
  r_ownType :: jsType
  dependencies :: "modelRef list"
  dependencyNames :: "jsType list"

definition DependenciesResolver :: "modelDescriptor jsobj \<Rightarrow> jsType \<Rightarrow> resolver" where
  "DependenciesResolver models ownType =
     \<lparr>r_models = models, r_ownType = ownType, dependencies = [], dependencyNames = []\<rparr>"

definition add :: "jsType \<Rightarrow> resolver \<Rightarrow> error + resolver" where
  "add dep0 r =
     (case removeBrackets dep0 of
        Inl e \<Rightarrow> Inl e
      | Inr dep \<Rightarrow>
          if \<not> arrayHas (dependencyNames r) dep \<and> \<not> strictEq dep (r_ownType r) then
            (case objGet (toStr dep) (r_models r) of
               Some depModel \<Rightarrow>
                 Inr (r\<lparr>dependencies := dependencies r @ [Model (toStr dep)],
                        dependencyNames := dependencyNames r @ [dep]\<rparr>)
             | None \<Rightarrow>
                 if inherited (toStr dep) (r_models r) then
                   Inr (r\<lparr>dependencies := dependencies r @ [Inherited (toStr dep)],
                          dependencyNames := dependencyNames r @ [dep]\<rparr>)
                 else Inr r)
          else Inr r)"

definition get :: "resolver \<Rightarrow> modelRef list" where
  "get r = dependencies r"

text \<open>
  The third loop of \<open>processModels\<close> for one object model: the parent, the subclasses,
  then each property. \<open>type.allTypes\<close> throws on \<open>null\<close>, is \<open>undefined\<close> on a
  string and is an array, which is truthy also when empty, on an inline type.
\<close>

definition addPropertyType :: "propertyDescriptor \<Rightarrow> resolver \<Rightarrow> error + resolver" where
  "addPropertyType property r =
     (case propertyTypeV property of
        Inline allTypes d \<Rightarrow> forEachE add allTypes r
      | Str s \<Rightarrow> add (Str s) r
      | _ \<Rightarrow> Inl TypeError)"

definition resolveDependencies :: "string \<Rightarrow> modelDescriptor jsobj \<Rightarrow> error + modelDescriptor jsobj" where
  "resolveDependencies name models =
     (case objGet name models of
        None \<Rightarrow> Inr models
      | Some model \<Rightarrow>
          if \<not> modelIsObject model then Inr models
          else
            (case (case modelParent model of
                     None \<Rightarrow> Inr (DependenciesResolver models (Str (modelName model)))
                   | Some parentName \<Rightarrow>
                       if parentName = [] then Inr (DependenciesResolver models (Str (modelName model)))
                       else add (Str parentName) (DependenciesResolver models (Str (modelName model)))) of
               Inl e \<Rightarrow> Inl e
             | Inr r1 \<Rightarrow>
                 (case forEachE (\<lambda>child. add (Str child)) (modelSubclasses model) r1 of
                    Inl e \<Rightarrow> Inl e
                  | Inr r2 \<Rightarrow>
                      (case forEachE addPropertyType (orEmpty (modelProperties model)) r2 of
                         Inl e \<Rightarrow> Inl e
                       | Inr r3 \<Rightarrow>
                           Inr (objSet name (model\<lparr>modelDependencies := Some (get r3)\<rparr>) models)))))"


section \<open>Services\<close>

text \<open>
  A response object with its \<open>schema\<close>; a parameter object, which \<open>propertyType\<close>
  reads as a schema fragment when it has no \<open>schema\<close> of its own (\<open>p_fragment\<close>,
  with its \<open>type\<close>, \<open>items\<close> and so on; \<open>param.type === 'array'\<close> reads the same
  \<open>type\<close>, and \<open>param.$ref\<close> is the \<open>$ref\<close> of that fragment); an operation.
  \<open>p_required\<close> is \<open>param.required === true\<close>. A parameter has a \<open>name\<close> and an
  \<open>in\<close>, as the format requires; it and an operation may have a \<open>description\<close>.
\<close>

record response =
  r_schema :: "schema option"

record paramDef =
  p_description :: description
  p_name :: string
  p_in :: string
  p_required :: bool
  p_schema :: "schema option"
  p_fragment :: schema

record opDef =
  o_description :: description
  o_tags :: "string list option"
  o_operationId :: "string option"
  o_parameters :: "paramDef list option"
  o_responses :: "response jsobj option"

text \<open>
  The document: \<open>definitions\<close>, \<open>paths\<close> (a path item or an operation may be
  \<open>null\<close>), and, for \<open>resolveRef\<close>, the parameter object that walking the document
  along a pointer arrives at (\<open>sw_at\<close>; \<open>None\<close> when the walk ends in \<open>undefined\<close>).
\<close>

record swagger =
  sw_definitions :: "modelDef jsobj"
  sw_paths :: "(string \<times> opDef option) list option jsobj"
  sw_at :: "string \<Rightarrow> paramDef option"

text \<open>
  \<open>processModels\<close>: the descriptors of all definitions, then the hierarchy, then the
  dependencies, each loop over the keys of \<open>models\<close>.
\<close>

definition processModels :: "swagger \<Rightarrow> error + modelDescriptor jsobj" where
  "processModels sw =
     (case describeModels (sw_definitions sw) of
        Inl e \<Rightarrow> Inl e
      | Inr models1 \<Rightarrow>
          (case forEachE linkHierarchy (map fst models1) models1 of
             Inl e \<Rightarrow> Inl e
           | Inr models2 \<Rightarrow> forEachE resolveDependencies (map fst models2) models2))"

text \<open>
  \<open>resolveRef\<close> leaves through \<open>process.exit(1)\<close> unless the reference starts with
  \<open>#/\<close>. Where the walk gives \<open>undefined\<close>, the caller's \<open>param.schema\<close> throws.
\<close>

definition resolveRef :: "swagger \<Rightarrow> string \<Rightarrow> error + paramDef" where
  "resolveRef sw ref =
     (if indexOf ref ''#/'' \<noteq> Some 0 then Inl Exit
      else (case sw_at sw ref of None \<Rightarrow> Inl TypeError | Some p \<Rightarrow> Inr p))"

record paramDescriptor =
  paramName :: string
  paramIn :: string
  paramRequired :: bool
  paramIsArray :: bool
  paramType :: jsType
  param_last :: bool

definition describeParam :: "swagger \<Rightarrow> paramDef \<Rightarrow> error + paramDescriptor" where
  "describeParam sw param0 =
     (case (case s_ref (p_fragment param0) of
              None \<Rightarrow> Inr param0
            | Some ref \<Rightarrow> if ref = [] then Inr param0 else resolveRef sw ref) of
        Inl e \<Rightarrow> Inl e
      | Inr param \<Rightarrow>
          (case toComments (p_description param) of
             Inl e \<Rightarrow> Inl e
           | Inr u \<Rightarrow>
               Inr \<lparr>paramName = p_name param,
                    paramIn = p_in param,
                    paramRequired = (p_required param \<or> p_in param = ''path''),
                    paramIsArray = (s_type (p_fragment param) = Some ''array''),
                    paramType = (case p_schema param of
                                   Some sch \<Rightarrow> propertyType (Some sch)
                                 | None \<Rightarrow> propertyType (Some (p_fragment param))),
                    param_last = False\<rparr>))"

fun mapE :: "('a \<Rightarrow> error + 'b) \<Rightarrow> 'a list \<Rightarrow> error + 'b list" where
  "mapE f [] = Inr []"
| "mapE f (x # xs) =
     (case f x of
        Inl e \<Rightarrow> Inl e
      | Inr y \<Rightarrow> (case mapE f xs of Inl e \<Rightarrow> Inl e | Inr ys \<Rightarrow> Inr (y # ys)))"

text \<open>The comparison function handed to \<open>sort\<close> for an operation's parameters.\<close>

definition paramCompare :: "paramDescriptor \<Rightarrow> paramDescriptor \<Rightarrow> int" where
  "paramCompare a b =
     (if paramRequired a \<and> \<not> paramRequired b then -1
      else if \<not> paramRequired a \<and> paramRequired b then 1
      else if paramName a > paramName b then -1
      else if paramName a < paramName b then 1 else 0)"

text \<open>Lines 736 to 744: the final order of an operation's parameters.\<close>

definition orderParameters :: "paramDescriptor list \<Rightarrow> paramDescriptor list" where
  "orderParameters params =
     markLast (\<lambda>p. p\<lparr>param_last := True\<rparr>) (arraySort paramCompare params)"

text \<open>
  \<open>operationResponses\<close> is one object with two kinds of members: \<open>resultType\<close>,
  a type, and one \<open>{code, type}\<close> entry per status code that has a schema.
\<close>

datatype responseValue = ResultType jsType | ResponseEntry string jsType

text \<open>\<open>/2\d\d/.test(code)\<close>: the pattern is not anchored.\<close>

fun test2xx :: "string \<Rightarrow> bool" where
  "test2xx (a # b # c # rest) =
     ((a = CHR ''2'' \<and> isDigit b \<and> isDigit c) \<or> test2xx (b # c # rest))"
| "test2xx _ = False"

definition truthy :: "jsType \<Rightarrow> bool" where
  "truthy t = (case t of Undefined \<Rightarrow> False | Null \<Rightarrow> False | Str s \<Rightarrow> s \<noteq> [] | Inline ts d \<Rightarrow> True)"

definition recordResponse :: "string \<times> response \<Rightarrow> responseValue jsobj \<Rightarrow> responseValue jsobj" where
  "recordResponse cr operationResponses =
     (case r_schema (snd cr) of
        None \<Rightarrow> operationResponses
      | Some sch \<Rightarrow>
          objSet (fst cr) (ResponseEntry (fst cr) (propertyType (Some sch)))
            (if test2xx (fst cr)
             then objSet ''resultType'' (ResultType (propertyType (Some sch))) operationResponses
             else operationResponses))"

definition processResponses :: "opDef \<Rightarrow> responseValue jsobj" where
  "processResponses def =
     (let operationResponses = fold recordResponse (orEmpty (o_responses def)) []
      in if (case objGet ''resultType'' operationResponses of
               None \<Rightarrow> False
             | Some (ResultType t) \<Rightarrow> truthy t
             | Some (ResponseEntry c t) \<Rightarrow> True)
         then operationResponses
         else objSet ''resultType'' (ResultType (Str ''void'')) operationResponses)"

record operation =
  operationName :: string
  operationPath :: string
  operationPathExpression :: string
  operationResultType :: jsType
  operationParameters :: "paramDescriptor list"
  operationResponses :: "responseValue jsobj"
  operationIsVoid :: bool
  operationIsString :: bool
  operationIsNumber :: bool
  operationIsBoolean :: bool
  operationIsEnum :: bool
  operationIsObject :: bool
  operationIsUnknown :: bool

text \<open>
  A service descriptor; \<open>serviceDependencies\<close> is \<open>None\<close> while the member has not
  been assigned. There is one descriptor per key of \<open>services\<close>, and a reference to it
  is that key.
\<close>

record service =
  serviceName :: string
  serviceOperations :: "operation list"
  serviceDependencies :: "modelRef list option"

text \<open>
  Lines 708 to 776: the operation descriptor of a definition that has one tag and an
  id. \<open>models[removeBrackets(resultType)]\<close> throws when the result type is not a
  string: an inline type, or the \<open>{code, type}\<close> entry that a status code spelled
  \<open>resultType\<close> leaves in that member. Before that, \<open>docString\<close> is
  \<open>def.description\<close> until the text of a parameter is appended to it, which makes it a
  string; \<open>toComments\<close> is applied to it. A member of \<open>Object.prototype\<close> that
  \<open>models[...]\<close> finds is neither an enum nor an object model, as if nothing were found.
\<close>

definition describeOperation ::
  "swagger \<Rightarrow> modelDescriptor jsobj \<Rightarrow> string \<Rightarrow> string \<Rightarrow> opDef \<Rightarrow> error + operation" where
  "describeOperation sw models url operationId def =
     (case o_parameters def of
        None \<Rightarrow> Inl TypeError
      | Some parameters \<Rightarrow>
          (case mapE (describeParam sw) parameters of
             Inl e \<Rightarrow> Inl e
           | Inr params \<Rightarrow>
             (case (if params = [] then toComments (o_description def) else Inr ()) of
                Inl e \<Rightarrow> Inl e
              | Inr u \<Rightarrow>
               (case objGet ''resultType'' (processResponses def) of
                  Some (ResultType resultType) \<Rightarrow>
                    (case removeBrackets resultType of
                       Inl e \<Rightarrow> Inl e
                     | Inr key \<Rightarrow>
                         (let modelResult = objGet (toStr key) models;
                              isVoid = (resultType = Str ''void'');
                              isString = (resultType = Str ''string'');
                              isNumber = (resultType = Str ''number'');
                              isBoolean = (resultType = Str ''boolean'');
                              isEnum = (case modelResult of None \<Rightarrow> False | Some m \<Rightarrow> modelIsEnum m);
                              isObject = (case modelResult of None \<Rightarrow> False | Some m \<Rightarrow> modelIsObject m)
                          in Inr \<lparr>operationName = operationId,
                                  operationPath = url,
                                  operationPathExpression = toPathExpression (Some url),
                                  operationResultType = resultType,
                                  operationParameters = orderParameters params,
                                  operationResponses = processResponses def,
                                  operationIsVoid = isVoid,
                                  operationIsString = isString,
                                  operationIsNumber = isNumber,
                                  operationIsBoolean = isBoolean,
                                  operationIsEnum = isEnum,
                                  operationIsObject = isObject,
                                  operationIsUnknown =
                                    (\<not> (isVoid \<or> isString \<or> isNumber \<or> isBoolean \<or> isEnum \<or> isObject))\<rparr>))
                | _ \<Rightarrow> Inl TypeError))))"

text \<open>
  The three log statements of \<open>processServices\<close> build their text from \<open>name\<close>.
  \<open>processServices\<close> declares no \<open>name\<close> (the one of \<open>processModels\<close> is local to
  that function) and neither does the module, so the identifier is looked up on the
  global object: \<open>globalName\<close> is its value there, \<open>None\<close> when the global object has
  no such binding, as in Node.js, which runs this file. Reading it then throws.
\<close>

definition logIgnoring :: "string option \<Rightarrow> 's \<Rightarrow> error + 's" where
  "logIgnoring globalName st = (case globalName of None \<Rightarrow> Inl ReferenceError | Some n \<Rightarrow> Inr st)"

text \<open>
  The body of the loop over the methods of one path. \<open>tag\<close> and \<open>descriptor\<close> are
  \<open>var\<close>s of the function, so they keep their values from one iteration, and from one
  path, to the next; they are assigned together, and the state carries what
  \<open>descriptor\<close> holds: nothing yet, the service descriptor of a tag, or the member of
  \<open>Object.prototype\<close> that \<open>services[tag]\<close> found for a tag that is no key of
  \<open>services\<close>. Such a member is not \<open>null\<close>, so no descriptor is created, and it has
  no \<open>serviceOperations\<close> to push onto.
\<close>

datatype current = NoDescriptor | ServiceOf string | InheritedValue string

definition processMethod ::
  "string option \<Rightarrow> swagger \<Rightarrow> modelDescriptor jsobj \<Rightarrow> string \<Rightarrow> string \<times> opDef option
     \<Rightarrow> service jsobj \<times> current \<Rightarrow> error + service jsobj \<times> current" where
  "processMethod globalName sw models url md st =
     (case snd md of
        None \<Rightarrow> Inr st
      | Some def \<Rightarrow>
          (let tags = orEmpty (o_tags def) in
           if length tags = 0 then logIgnoring globalName st
           else if length tags > 1 then logIgnoring globalName st
           else
             (let tag = tags ! 0;
                  descriptor = (if inherited tag (fst st) then InheritedValue tag else ServiceOf tag);
                  services = (case objGet tag (fst st) of
                                None \<Rightarrow>
                                  if inherited tag (fst st) then fst st
                                  else objSet tag \<lparr>serviceName = tag, serviceOperations = [],
                                                   serviceDependencies = None\<rparr> (fst st)
                              | Some d \<Rightarrow> fst st)
              in case o_operationId def of
                   None \<Rightarrow> logIgnoring globalName (services, descriptor)
                 | Some operationId \<Rightarrow>
                     (case describeOperation sw models url operationId def of
                        Inl e \<Rightarrow> Inl e
                      | Inr operation \<Rightarrow>
                          (case objGet tag services of
                             None \<Rightarrow> Inl TypeError
                           | Some d \<Rightarrow>
                               Inr (objSet tag
                                      (d\<lparr>serviceOperations := serviceOperations d @ [operation]\<rparr>)
                                      services,
                                    descriptor))))))"

text \<open>
  Lines 784 to 791 for one operation: \<open>for (code in op.operationResponses)\<close> visits
  the member \<open>resultType\<close> too, whose value is a string or an inline type and has no
  \<open>type\<close> member, so \<open>undefined\<close> is added; then the parameters.
\<close>

definition addResponseValue :: "string \<times> responseValue \<Rightarrow> resolver \<Rightarrow> error + resolver" where
  "addResponseValue cv r =
     (case snd cv of
        ResultType t \<Rightarrow> (case t of Null \<Rightarrow> Inl TypeError | Undefined \<Rightarrow> Inl TypeError | _ \<Rightarrow> add Undefined r)
      | ResponseEntry c t \<Rightarrow> add t r)"

definition addOperation :: "operation \<Rightarrow> resolver \<Rightarrow> error + resolver" where
  "addOperation op r =
     (case forEachE addResponseValue (operationResponses op) r of
        Inl e \<Rightarrow> Inl e
      | Inr r' \<Rightarrow> forEachE (\<lambda>param. add (paramType param)) (operationParameters op) r')"

text \<open>
  The body of the loop over the paths: the methods, then lines 778 to 793, which run
  once per path on whatever \<open>descriptor\<close> holds at that moment. With \<open>descriptor\<close>
  still \<open>undefined\<close>, or a member of \<open>Object.prototype\<close>,
  \<open>descriptor.serviceOperations.length\<close> throws.
\<close>

definition processPath ::
  "string option \<Rightarrow> swagger \<Rightarrow> modelDescriptor jsobj \<Rightarrow> string \<times> (string \<times> opDef option) list option
     \<Rightarrow> service jsobj \<times> current \<Rightarrow> error + service jsobj \<times> current" where
  "processPath globalName sw models up st =
     (case forEachE (processMethod globalName sw models (fst up)) (orEmpty (snd up)) st of
        Inl e \<Rightarrow> Inl e
      | Inr (services, cur) \<Rightarrow>
          (case cur of
             NoDescriptor \<Rightarrow> Inl TypeError
           | InheritedValue tag \<Rightarrow> Inl TypeError
           | ServiceOf tag \<Rightarrow>
               (case objGet tag services of
                  None \<Rightarrow> Inl TypeError
                | Some descriptor \<Rightarrow>
                    (case forEachE addOperation (serviceOperations descriptor)
                            (DependenciesResolver models Undefined) of
                       Inl e \<Rightarrow> Inl e
                     | Inr resolved \<Rightarrow>
                         Inr (objSet tag (descriptor\<lparr>serviceDependencies := Some (get resolved)\<rparr>)
                                services,
                              ServiceOf tag)))))"

definition processServices ::
  "string option \<Rightarrow> swagger \<Rightarrow> modelDescriptor jsobj \<Rightarrow> error + service jsobj" where
  "processServices globalName sw models =
     (case forEachE (processPath globalName sw models) (sw_paths sw) ([], NoDescriptor) of
        Inl e \<Rightarrow> Inl e
      | Inr (services, cur) \<Rightarrow> Inr services)"

section \<open>The tag filter\<close>

text \<open>
  \<open>collectDependencies\<close> is recursive through \<open>forEach\<close> and the graph of
  descriptors may be cyclic, so the model counts the depth of the recursion down from
  \<open>fuel\<close> and answers \<open>None\<close> when it is used up. Its argument \<open>model\<close> is a
  descriptor, a member of \<open>Object.prototype\<close> that a resolver listed, or
  \<open>undefined\<close>. The descriptors that \<open>modelDependencies\<close> holds are reached
  through their keys in \<open>heap\<close>, the descriptors that exist, and a key with no
  descriptor there reads as \<open>undefined\<close>. \<open>seen\<close> is the set \<open>dependencies\<close>
  of the source: it holds each \<open>model.modelName\<close>, which is a name for a descriptor and
  \<open>undefined\<close> (here \<open>None\<close>) for a member of \<open>Object.prototype\<close>, which has
  no \<open>modelDependencies\<close> either. The parameter \<open>models\<close> of the source is passed
  along and never read.
\<close>

datatype modelValue = UndefinedModel | Descriptor modelDescriptor | PrototypeMember string

definition deref :: "modelDescriptor jsobj \<Rightarrow> modelRef \<Rightarrow> modelValue" where
  "deref heap ref =
     (case ref of
        Model k \<Rightarrow> (case objGet k heap of None \<Rightarrow> UndefinedModel | Some m \<Rightarrow> Descriptor m)
      | Inherited k \<Rightarrow> PrototypeMember k)"

fun forEachO :: "('a \<Rightarrow> 's \<Rightarrow> 's option) \<Rightarrow> 'a list \<Rightarrow> 's \<Rightarrow> 's option" where
  "forEachO f [] s = Some s"
| "forEachO f (x # xs) s = (case f x s of None \<Rightarrow> None | Some s' \<Rightarrow> forEachO f xs s')"

fun collectDependencies ::
  "nat \<Rightarrow> modelDescriptor jsobj \<Rightarrow> modelValue \<Rightarrow> string option list \<Rightarrow> string option list option" where
  "collectDependencies 0 heap model seen = None"
| "collectDependencies (Suc fuel) heap model seen =
     (case model of
        UndefinedModel \<Rightarrow> Some seen
      | PrototypeMember k \<Rightarrow> if None \<in> set seen then Some seen else Some (setAdd None seen)
      | Descriptor m \<Rightarrow>
          if Some (modelName m) \<in> set seen then Some seen
          else (case modelDependencies m of
                  None \<Rightarrow> Some (setAdd (Some (modelName m)) seen)
                | Some deps \<Rightarrow>
                    forEachO (\<lambda>dep. collectDependencies fuel heap (deref heap dep)) deps
                      (setAdd (Some (modelName m)) seen)))"

text \<open>
  \<open>!includeTags || includeTags.indexOf(serviceName) >= 0\<close>: \<open>includeTags\<close> is
  \<open>None\<close> when it is \<open>null\<close> or \<open>undefined\<close>, and else the array that
  \<open>doGenerate\<close> passes (a string option is split at its commas first). An array, also
  the empty one, is truthy.
\<close>

definition included :: "string list option \<Rightarrow> string \<Rightarrow> bool" where
  "included includeTags name =
     (case includeTags of None \<Rightarrow> True | Some tags \<Rightarrow> name \<in> set tags)"

text \<open>
  The first loop of \<open>applyTagFilter\<close> for one service.
  \<open>service.serviceDependencies.forEach\<close> throws when the member was never assigned.
\<close>

definition filterService ::
  "string list option \<Rightarrow> bool \<Rightarrow> string \<times> service
     \<Rightarrow> service jsobj \<times> modelRef list \<Rightarrow> error + service jsobj \<times> modelRef list" where
  "filterService includeTags ignoreUnusedModels ns st =
     (if \<not> included includeTags (fst ns) then Inr (objDelete (fst ns) (fst st), snd st)
      else if ignoreUnusedModels then
        (case serviceDependencies (snd ns) of
           None \<Rightarrow> Inl TypeError
         | Some deps \<Rightarrow> Inr (fst st, fold setAdd deps (snd st)))
      else Inr st)"

definition applyTagFilter ::
  "modelDescriptor jsobj \<Rightarrow> service jsobj \<Rightarrow> string list option \<Rightarrow> bool
     \<Rightarrow> error + modelDescriptor jsobj \<times> service jsobj" where
  "applyTagFilter models services includeTags ignoreUnusedModels =
     (case forEachE (filterService includeTags ignoreUnusedModels) services (services, []) of
        Inl e \<Rightarrow> Inl e
      | Inr (services', usedModels) \<Rightarrow>
          if ignoreUnusedModels then
            (case forEachO (\<lambda>dep. collectDependencies (length models + 2) models (deref models dep))
                    usedModels [] of
               None \<Rightarrow> Inl OutOfFuel
             | Some allDependencies \<Rightarrow>
                 Inr (filter (\<lambda>nm. Some (fst nm) \<in> set allDependencies) models, services'))
          else Inr (models, services'))"


section \<open>Predicates of the specification\<close>

text \<open>
  The order the specification asks of an operation's parameters, as a relation between an
  earlier and a later parameter: of two parameters that are both required or both
  optional, the earlier has the greater or equal name; otherwise the earlier is the
  required one.
\<close>

definition requiredFirstNameDescending :: "paramDescriptor \<Rightarrow> paramDescriptor \<Rightarrow> bool" where
  "requiredFirstNameDescending a b =
     (if paramRequired a = paramRequired b then paramName b \<le> paramName a else paramRequired a)"

text \<open>A declared response that carries a schema under a status code matching the 2xx pattern.\<close>

definition successful :: "string \<times> response \<Rightarrow> bool" where
  "successful cr = (r_schema (snd cr) \<noteq> None \<and> test2xx (fst cr))"

text \<open>
  The names of the descriptors of \<open>heap\<close> that the closure has not seen yet: the
  measure of \<open>collectDependencies\<close>.
\<close>

definition unseen :: "modelDescriptor jsobj \<Rightarrow> string option list \<Rightarrow> string option set" where
  "unseen heap seen = (\<lambda>m. Some (modelName m)) ` snd ` set heap - set seen"

text \<open>
  The invariant of a resolver: \<open>dependencies\<close> and \<open>dependencyNames\<close> run in
  parallel, no name is recorded twice, and every recorded name is other than
  \<open>ownType\<close> and is a key of \<open>models\<close> or the name of a member of
  \<open>Object.prototype\<close>.
\<close>

definition found :: "modelDescriptor jsobj \<Rightarrow> string \<Rightarrow> modelRef" where
  "found models k = (if objGet k models \<noteq> None then Model k else Inherited k)"

definition isInline :: "jsType \<Rightarrow> bool" where
  "isInline t = (case t of Inline ts d \<Rightarrow> True | _ \<Rightarrow> False)"

definition resolverInv :: "resolver \<Rightarrow> bool" where
  "resolverInv r =
     (dependencies r = map (\<lambda>d. found (r_models r) (toStr d)) (dependencyNames r)
      \<and> distinct (dependencyNames r)
      \<and> list_all (\<lambda>d. \<not> isInline d
                      \<and> (inherited (toStr d) (r_models r) \<or> objGet (toStr d) (r_models r) \<noteq> None)
                      \<and> \<not> strictEq d (r_ownType r)) (dependencyNames r))"

section \<open>Properties\<close>

lemmas object_simps = objSet_def objGet_def objDelete_def isArrayIndex_def isDigit_def digitsToNat_def
  inherited_def objectPrototype_def

lemmas model_simps = processModels_def describeModels_def describeModel_def processProperties_def
  processProperty_def toComments_def
  orderProperties_def propertyCompare_def property_modelName_def jsLess_def markLast_def
  orEmpty_def nthOrEmpty_def enumDescriptors_def linkHierarchy_def resolveDependencies_def
  addPropertyType_def DependenciesResolver_def add_def get_def removeBrackets_def arrayHas_def
  simpleRef_def substr_def substrFrom_def

lemmas service_simps = processServices_def processPath_def processMethod_def logIgnoring_def
  describeOperation_def describeParam_def resolveRef_def processResponses_def recordResponse_def
  truthy_def orderParameters_def paramCompare_def addOperation_def addResponseValue_def
  toPathExpression_def replace_def

subsection \<open>Strings\<close>

lemma indexOf_take: "take (length pat) s = pat \<Longrightarrow> indexOf s pat = Some 0"
  by (cases s) auto

lemma indexOf_prefix: "indexOf (pat @ s) pat = Some 0"
  by (rule indexOf_take) simp

lemma xTypeOverride_List: "xTypeOverride (''List<'' @ T @ ''>'') = Str (T @ ''>[]'')"
proof -
  have r: "replace (''List<'' @ T @ ''>'') ''List<'' ''Array<'' = ''Array<'' @ T @ ''>''"
    unfolding replace_def by (simp only: indexOf_prefix) simp
  have i: "indexOf (''Array<'' @ T @ ''>'') ''Array<'' = Some 0"
    by (rule indexOf_prefix)
  show ?thesis
    unfolding xTypeOverride_def r Let_def i by (simp add: substr_def)
qed

subsection \<open>Objects\<close>

lemma map_of_replace_other:
  "k' \<noteq> k \<Longrightarrow> map_of (map (\<lambda>kv. if fst kv = k then (k, v) else kv) obj) k' = map_of obj k'"
  by (induction obj) auto

lemma map_of_replace_same:
  "map_of obj k \<noteq> None \<Longrightarrow> map_of (map (\<lambda>kv. if fst kv = k then (k, v) else kv) obj) k = Some v"
  by (induction obj) auto

lemma map_of_insertIndexKey:
  "map_of obj k = None \<Longrightarrow>
   map_of (insertIndexKey k v obj) k' = (if k' = k then Some v else map_of obj k')"
  by (induction obj) auto

lemma objGet_objSet: "objGet k' (objSet k v obj) = (if k' = k then Some v else objGet k' obj)"
proof (cases "map_of obj k")
  case None
  then show ?thesis
    by (auto simp: objGet_def objSet_def map_of_insertIndexKey map_add_def split: option.splits)
next
  case (Some a)
  then show ?thesis
    using map_of_replace_same [of obj k v] map_of_replace_other [of k' k v obj]
    by (simp add: objGet_def objSet_def)
qed

subsection \<open>Sorting and the flag of the last element\<close>

lemma mset_sortInsert: "mset (sortInsert cmp x ys) = add_mset x (mset ys)"
  by (induction ys) auto

lemma mset_arraySort: "mset (arraySort cmp xs) = mset xs"
  by (induction xs) (auto simp: mset_sortInsert)

lemma set_sortInsert: "set (sortInsert cmp x ys) = insert x (set ys)"
  by (induction ys) auto

lemma length_arraySort: "length (arraySort cmp xs) = length xs"
  using mset_arraySort [of cmp xs] by (metis size_mset)

lemma sorted_sortInsert:
  assumes total: "\<And>a b. cmp a b \<le> 0 \<or> cmp b a \<le> 0"
    and trans: "\<And>a b c. cmp a b \<le> 0 \<Longrightarrow> cmp b c \<le> 0 \<Longrightarrow> cmp a c \<le> 0"
  shows "sorted_wrt (\<lambda>a b. cmp a b \<le> 0) ys \<Longrightarrow> sorted_wrt (\<lambda>a b. cmp a b \<le> 0) (sortInsert cmp x ys)"
proof (induction ys)
  case Nil
  then show ?case by simp
next
  case (Cons y ys)
  show ?case
  proof (cases "cmp x y \<le> 0")
    case True
    then have "\<forall>z \<in> set ys. cmp x z \<le> 0"
      using Cons.prems trans by auto
    with True Cons.prems show ?thesis by simp
  next
    case False
    then have yx: "cmp y x \<le> 0" using total [of x y] by simp
    from Cons have "sorted_wrt (\<lambda>a b. cmp a b \<le> 0) (sortInsert cmp x ys)" by simp
    with False yx Cons.prems show ?thesis by (auto simp: set_sortInsert)
  qed
qed

lemma sorted_arraySort:
  assumes total: "\<And>a b. cmp a b \<le> 0 \<or> cmp b a \<le> 0"
    and trans: "\<And>a b c. cmp a b \<le> 0 \<Longrightarrow> cmp b c \<le> 0 \<Longrightarrow> cmp a c \<le> 0"
  shows "sorted_wrt (\<lambda>a b. cmp a b \<le> 0) (arraySort cmp xs)"
proof (induction xs)
  case Nil
  then show ?case by simp
next
  case (Cons x xs)
  then show ?case using sorted_sortInsert [of cmp, OF total trans] by simp
qed

lemma paramCompare_le: "(paramCompare a b \<le> 0) = requiredFirstNameDescending a b"
  by (auto simp: paramCompare_def requiredFirstNameDescending_def)

lemma sorted_paramCompare: "sorted_wrt requiredFirstNameDescending (arraySort paramCompare ps)"
proof -
  have "sorted_wrt (\<lambda>a b. paramCompare a b \<le> 0) (arraySort paramCompare ps)"
  proof (rule sorted_arraySort)
    show "paramCompare a b \<le> 0 \<or> paramCompare b a \<le> 0" for a b
      by (auto simp: paramCompare_def)
    show "paramCompare a b \<le> 0 \<Longrightarrow> paramCompare b c \<le> 0 \<Longrightarrow> paramCompare a c \<le> 0" for a b c
      unfolding paramCompare_le requiredFirstNameDescending_def
      by (auto split: if_splits)
  qed
  then show ?thesis by (simp add: paramCompare_le)
qed

lemma markLast_Nil: "markLast upd [] = []"
  by (simp add: markLast_def)

lemma markLast_snoc: "markLast upd (ys @ [y]) = ys @ [upd y]"
  by (simp add: markLast_def nth_append)

lemma markLast_map:
  assumes "\<And>x. key (upd x) = key x"
  shows "map key (markLast upd xs) = map key xs"
  using assms by (cases xs rule: rev_cases) (simp_all add: markLast_Nil markLast_snoc)

lemma sorted_wrt_markLast:
  assumes "\<And>x y. R (upd x) y = R x y" and "\<And>x y. R x (upd y) = R x y"
  shows "sorted_wrt R (markLast upd xs) = sorted_wrt R xs"
  using assms by (cases xs rule: rev_cases) (simp_all add: markLast_Nil markLast_snoc sorted_wrt_append)

lemma last_markLast: "xs \<noteq> [] \<Longrightarrow> last (markLast upd xs) = upd (last xs)"
  by (cases xs rule: rev_cases) (simp_all add: markLast_snoc)

lemma butlast_markLast: "butlast (markLast upd xs) = butlast xs"
  by (cases xs rule: rev_cases) (simp_all add: markLast_Nil markLast_snoc)

lemma arraySort_propertyCompare: "arraySort propertyCompare xs = xs"
proof (induction xs)
  case Nil
  then show ?case by simp
next
  case (Cons x xs)
  then show ?case
    by (cases xs) (simp_all add: propertyCompare_def property_modelName_def jsLess_def)
qed

subsection \<open>The dependency closure returns\<close>

lemma finite_unseen: "finite (unseen heap seen)"
  by (simp add: unseen_def)

lemma unseen_mono: "set seen \<subseteq> set seen' \<Longrightarrow> card (unseen heap seen') \<le> card (unseen heap seen)"
  by (rule card_mono) (auto simp: unseen_def)

lemma unseen_setAdd:
  assumes "m \<in> snd ` set heap" and "Some (modelName m) \<notin> set seen"
  shows "card (unseen heap (setAdd (Some (modelName m)) seen)) < card (unseen heap seen)"
proof (rule psubset_card_mono)
  show "finite (unseen heap seen)" by (rule finite_unseen)
  have "Some (modelName m) \<in> unseen heap seen" using assms by (auto simp: unseen_def)
  moreover have "Some (modelName m) \<notin> unseen heap (setAdd (Some (modelName m)) seen)"
    by (simp add: unseen_def setAdd_def)
  moreover have "unseen heap (setAdd (Some (modelName m)) seen) \<subseteq> unseen heap seen"
    by (auto simp: unseen_def setAdd_def)
  ultimately show "unseen heap (setAdd (Some (modelName m)) seen) \<subset> unseen heap seen" by blast
qed

lemma card_unseen_le: "card (unseen heap seen) \<le> length heap"
proof -
  have "card (unseen heap seen) \<le> card ((\<lambda>m. Some (modelName m)) ` snd ` set heap)"
    by (rule card_mono) (auto simp: unseen_def)
  also have "\<dots> \<le> card (set heap)"
    by (metis card_image_le List.finite_set finite_imageI le_trans)
  also have "\<dots> \<le> length heap" by (rule card_length)
  finally show ?thesis .
qed

lemma objGet_in_heap: "objGet dep heap = Some m \<Longrightarrow> m \<in> snd ` set heap"
  unfolding objGet_def by (metis map_of_SomeD snd_conv image_eqI)

lemma deref_in_heap: "deref heap dep = Descriptor m \<Longrightarrow> m \<in> snd ` set heap"
  by (auto simp: deref_def intro: objGet_in_heap split: modelRef.splits option.splits)

text \<open>The loop over the dependencies of one model, given that each call returns.\<close>

lemma forEachO_collect:
  assumes step: "\<And>model seen. (\<forall>m. model = Descriptor m \<longrightarrow> m \<in> snd ` set heap) \<Longrightarrow> card (unseen heap seen) < k
            \<Longrightarrow> \<exists>seen'. collectDependencies k heap model seen = Some seen' \<and> set seen \<subseteq> set seen'"
  shows "card (unseen heap seen) < k \<Longrightarrow>
         \<exists>seen'. forEachO (\<lambda>dep. collectDependencies k heap (deref heap dep)) deps seen = Some seen'
                \<and> set seen \<subseteq> set seen'"
proof (induction deps arbitrary: seen)
  case Nil
  then show ?case by simp
next
  case (Cons d deps)
  have "\<forall>m. deref heap d = Descriptor m \<longrightarrow> m \<in> snd ` set heap"
    by (auto intro: deref_in_heap)
  with step Cons.prems obtain s1 where
    s1: "collectDependencies k heap (deref heap d) seen = Some s1" "set seen \<subseteq> set s1"
    by blast
  from s1(2) Cons.prems have "card (unseen heap s1) < k"
    using unseen_mono [of seen s1 heap] by simp
  from Cons.IH [OF this] obtain s2 where
    "forEachO (\<lambda>dep. collectDependencies k heap (deref heap dep)) deps s1 = Some s2" "set s1 \<subseteq> set s2"
    by blast
  with s1 show ?case by auto
qed

lemma collectDependencies_inner:
  "(\<forall>m. model = Descriptor m \<longrightarrow> m \<in> snd ` set heap) \<Longrightarrow> card (unseen heap seen) < fuel
   \<Longrightarrow> \<exists>seen'. collectDependencies fuel heap model seen = Some seen' \<and> set seen \<subseteq> set seen'"
proof (induction fuel arbitrary: model seen)
  case 0
  then show ?case by simp
next
  case (Suc k)
  show ?case
  proof (cases model)
    case UndefinedModel
    then show ?thesis by simp
  next
    case (PrototypeMember p)
    then show ?thesis by (auto simp: setAdd_def)
  next
    case (Descriptor m)
    show ?thesis
    proof (cases "Some (modelName m) \<in> set seen")
      case True
      with Descriptor show ?thesis by simp
    next
      case False
      have sub: "set seen \<subseteq> set (setAdd (Some (modelName m)) seen)" by (auto simp: setAdd_def)
      show ?thesis
      proof (cases "modelDependencies m")
        case None
        with Descriptor False sub show ?thesis by simp
      next
        case (Some deps)
        from Suc.prems Descriptor have "m \<in> snd ` set heap" by simp
        then have "card (unseen heap (setAdd (Some (modelName m)) seen)) < card (unseen heap seen)"
          using False by (rule unseen_setAdd)
        with Suc.prems have "card (unseen heap (setAdd (Some (modelName m)) seen)) < k" by simp
        from forEachO_collect [of heap k, OF Suc.IH this] obtain s where
          "forEachO (\<lambda>dep. collectDependencies k heap (deref heap dep)) deps
             (setAdd (Some (modelName m)) seen) = Some s"
          "set (setAdd (Some (modelName m)) seen) \<subseteq> set s"
          by blast
        with Some False sub Descriptor show ?thesis by auto
      qed
    qed
  qed
qed

lemma collectDependencies_outer:
  "\<exists>seen'. collectDependencies (length heap + 2) heap model seen = Some seen' \<and> set seen \<subseteq> set seen'"
proof (cases model)
  case UndefinedModel
  then show ?thesis by simp
next
  case (PrototypeMember p)
  then show ?thesis by (auto simp: setAdd_def)
next
  case (Descriptor m)
  show ?thesis
  proof (cases "Some (modelName m) \<in> set seen")
    case True
    with Descriptor show ?thesis by simp
  next
    case False
    have sub: "set seen \<subseteq> set (setAdd (Some (modelName m)) seen)" by (auto simp: setAdd_def)
    show ?thesis
    proof (cases "modelDependencies m")
      case None
      with Descriptor False sub show ?thesis by simp
    next
      case (Some deps)
      have "card (unseen heap (setAdd (Some (modelName m)) seen)) < length heap + 1"
        using card_unseen_le [of heap "setAdd (Some (modelName m)) seen"] by simp
      from forEachO_collect [of heap "length heap + 1", OF collectDependencies_inner this] obtain s where
        "forEachO (\<lambda>dep. collectDependencies (length heap + 1) heap (deref heap dep)) deps
           (setAdd (Some (modelName m)) seen) = Some s"
        "set (setAdd (Some (modelName m)) seen) \<subseteq> set s"
        by blast
      with Some False sub Descriptor show ?thesis by auto
    qed
  qed
qed

lemma forEachO_mono:
  assumes "\<And>x s s'. f x s = Some s' \<Longrightarrow> g x s = Some s'"
  shows "forEachO f xs s = Some s' \<Longrightarrow> forEachO g xs s = Some s'"
proof (induction xs arbitrary: s)
  case Nil
  then show ?case by simp
next
  case (Cons x xs)
  from Cons.prems obtain s1 where s1: "f x s = Some s1" "forEachO f xs s1 = Some s'"
    by (auto split: option.splits)
  from assms [OF s1(1)] Cons.IH [OF s1(2)] show ?case by simp
qed

lemma collectDependencies_more_fuel:
  "collectDependencies fuel heap model seen = Some seen' \<Longrightarrow>
   collectDependencies (Suc fuel) heap model seen = Some seen'"
proof (induction fuel arbitrary: model seen seen')
  case 0
  then show ?case by simp
next
  case (Suc k)
  show ?case
  proof (cases model)
    case UndefinedModel
    with Suc.prems show ?thesis by simp
  next
    case (PrototypeMember p)
    with Suc.prems show ?thesis by simp
  next
    case (Descriptor m)
    show ?thesis
    proof (cases "Some (modelName m) \<in> set seen")
      case True
      with Descriptor Suc.prems show ?thesis by simp
    next
      case False
      show ?thesis
      proof (cases "modelDependencies m")
        case None
        with Descriptor False Suc.prems show ?thesis by simp
      next
        case deps: (Some deps)
        from Suc.prems Descriptor False deps have
          "forEachO (\<lambda>dep. collectDependencies k heap (deref heap dep)) deps
             (setAdd (Some (modelName m)) seen) = Some seen'"
          by simp
        then have "forEachO (\<lambda>dep. collectDependencies (Suc k) heap (deref heap dep)) deps
                     (setAdd (Some (modelName m)) seen) = Some seen'"
          by (rule forEachO_mono [rotated]) (rule Suc.IH)
        with Descriptor False deps show ?thesis by simp
      qed
    qed
  qed
qed

lemma forEachO_collect_total:
  "\<exists>seen'. forEachO (\<lambda>dep. collectDependencies (length heap + 2) heap (deref heap dep)) deps seen = Some seen'"
proof (induction deps arbitrary: seen)
  case Nil
  then show ?case by simp
next
  case (Cons d deps)
  obtain s1 where "collectDependencies (length heap + 2) heap (deref heap d) seen = Some s1"
    using collectDependencies_outer [of heap "deref heap d" seen] by blast
  with Cons.IH [of s1] show ?case by simp
qed

subsection \<open>The loops of the tag filter and of the responses\<close>

lemma filterService_loop:
  assumes "ign \<Longrightarrow> \<forall>ns \<in> set xs. included tags (fst ns) \<longrightarrow> serviceDependencies (snd ns) \<noteq> None"
  shows "\<exists>used'. forEachE (filterService tags ign) xs (svcs, used)
           = Inr (filter (\<lambda>kv. included tags (fst kv) \<or> fst kv \<notin> fst ` set xs) svcs, used')"
  using assms
proof (induction xs arbitrary: svcs used)
  case Nil
  then show ?case by simp
next
  case (Cons x xs)
  have rest: "ign \<Longrightarrow> \<forall>ns \<in> set xs. included tags (fst ns) \<longrightarrow> serviceDependencies (snd ns) \<noteq> None"
    using Cons.prems by simp
  show ?case
  proof (cases "included tags (fst x)")
    case False
    from Cons.IH [OF rest, of "objDelete (fst x) svcs" used] obtain u where
      u: "forEachE (filterService tags ign) xs (objDelete (fst x) svcs, used)
          = Inr (filter (\<lambda>kv. included tags (fst kv) \<or> fst kv \<notin> fst ` set xs) (objDelete (fst x) svcs), u)"
      by blast
    have "filter (\<lambda>kv. included tags (fst kv) \<or> fst kv \<notin> fst ` set xs) (objDelete (fst x) svcs)
          = filter (\<lambda>kv. included tags (fst kv) \<or> fst kv \<notin> fst ` set (x # xs)) svcs"
      unfolding objDelete_def filter_filter using False by (intro filter_cong) auto
    moreover have "filterService tags ign x (svcs, used) = Inr (objDelete (fst x) svcs, used)"
      using False by (simp add: filterService_def)
    ultimately show ?thesis using u by simp
  next
    case True
    have same: "filter (\<lambda>kv. included tags (fst kv) \<or> fst kv \<notin> fst ` set xs) svcs
          = filter (\<lambda>kv. included tags (fst kv) \<or> fst kv \<notin> fst ` set (x # xs)) svcs"
      using True by (intro filter_cong) auto
    show ?thesis
    proof (cases ign)
      case False
      from Cons.IH [OF rest, of svcs used] obtain u where
        "forEachE (filterService tags ign) xs (svcs, used)
          = Inr (filter (\<lambda>kv. included tags (fst kv) \<or> fst kv \<notin> fst ` set xs) svcs, u)"
        by blast
      moreover have "filterService tags ign x (svcs, used) = Inr (svcs, used)"
        using True False by (simp add: filterService_def)
      ultimately show ?thesis using same by simp
    next
      case ign: True
      with Cons.prems True obtain deps where deps: "serviceDependencies (snd x) = Some deps" by auto
      from Cons.IH [OF rest, of svcs "fold setAdd deps used"] obtain u where
        "forEachE (filterService tags ign) xs (svcs, fold setAdd deps used)
          = Inr (filter (\<lambda>kv. included tags (fst kv) \<or> fst kv \<notin> fst ` set xs) svcs, u)"
        by blast
      moreover have "filterService tags ign x (svcs, used) = Inr (svcs, fold setAdd deps used)"
        using True ign deps by (simp add: filterService_def)
      ultimately show ?thesis using same by simp
    qed
  qed
qed

lemma fold_recordResponse_resultType:
  "''resultType'' \<notin> fst ` set rs \<Longrightarrow>
   objGet ''resultType'' (fold recordResponse rs acc) =
     (case filter successful rs of
        [] \<Rightarrow> objGet ''resultType'' acc
      | xs \<Rightarrow> Some (ResultType (propertyType (r_schema (snd (last (filter successful rs)))))))"
proof (induction rs arbitrary: acc)
  case Nil
  then show ?case by simp
next
  case (Cons cr rs)
  then have ne: "fst cr \<noteq> ''resultType''" and rest: "''resultType'' \<notin> fst ` set rs" by auto
  have step: "objGet ''resultType'' (recordResponse cr acc) =
      (if successful cr then Some (ResultType (propertyType (r_schema (snd cr)))) else objGet ''resultType'' acc)"
    using ne by (auto simp: recordResponse_def successful_def objGet_objSet split: option.splits)
  show ?case
    using Cons.IH [OF rest, of "recordResponse cr acc"] step
    by (auto split: list.splits)
qed

subsection \<open>The invariant of the resolver\<close>

lemma strictEq_eq: "\<not> isInline a \<Longrightarrow> strictEq a b = (a = b)"
  by (cases a; cases b) (simp_all add: isInline_def)

lemma arrayHas_mem: "\<not> isInline x \<Longrightarrow> arrayHas xs x = (x \<in> set xs)"
  by (induction xs) (auto simp: arrayHas_def strictEq_eq)

lemma removeBrackets_not_inline: "removeBrackets c = Inr d \<Longrightarrow> \<not> isInline d"
  by (cases c) (auto simp: removeBrackets_def isInline_def split: option.splits)

lemma removeBrackets_Null: "removeBrackets c = Inr Null \<Longrightarrow> c = Null"
  by (cases c) (auto simp: removeBrackets_def split: option.splits)

lemma removeBrackets_Undefined: "removeBrackets c = Inr Undefined \<Longrightarrow> c = Undefined"
  by (cases c) (auto simp: removeBrackets_def split: option.splits)

lemma add_inv:
  assumes "add c r = Inr r'" and "resolverInv r"
  shows "resolverInv r' \<and> r_models r' = r_models r \<and> r_ownType r' = r_ownType r
         \<and> set (dependencyNames r') \<subseteq> set (dependencyNames r) \<union> {d. removeBrackets c = Inr d}"
proof -
  from assms(1) obtain d where d: "removeBrackets c = Inr d"
    by (auto simp: add_def split: sum.splits)
  then have ni: "\<not> isInline d" by (rule removeBrackets_not_inline)
  show ?thesis
    using assms d ni
    by (auto simp: add_def resolverInv_def arrayHas_mem found_def inherited_def
             split: if_splits option.splits)
qed

lemma forEachE_add_inv:
  "forEachE add cs r = Inr r' \<Longrightarrow> resolverInv r \<Longrightarrow>
   resolverInv r' \<and> r_models r' = r_models r \<and> r_ownType r' = r_ownType r
   \<and> set (dependencyNames r') \<subseteq> set (dependencyNames r) \<union> {d. \<exists>c \<in> set cs. removeBrackets c = Inr d}"
proof (induction cs arbitrary: r)
  case Nil
  then show ?case by simp
next
  case (Cons c cs)
  from Cons.prems(1) obtain r1 where r1: "add c r = Inr r1" "forEachE add cs r1 = Inr r'"
    by (auto split: sum.splits)
  from add_inv [OF r1(1) Cons.prems(2)] have
    a: "resolverInv r1" "r_models r1 = r_models r" "r_ownType r1 = r_ownType r"
       "set (dependencyNames r1) \<subseteq> set (dependencyNames r) \<union> {d. removeBrackets c = Inr d}"
    by simp_all
  from Cons.IH [OF r1(2) a(1)] a show ?case by auto
qed

lemma resolverInv_new: "resolverInv (DependenciesResolver models ownType)"
  by (simp add: resolverInv_def DependenciesResolver_def)

text \<open>
  What holds of the list of a resolver, whatever candidates it was given without
  throwing: every element is the descriptor under a key of \<open>models\<close> or, for a name
  that is no key of \<open>models\<close>, a member of \<open>Object.prototype\<close>; and no element is
  listed twice unless \<open>null\<close> was a candidate and a model is named \<open>null\<close> (or the
  same with \<open>undefined\<close>, in a resolver that has an own type).
\<close>

lemma resolver_list_elements:
  assumes "forEachE add cs (DependenciesResolver models ownType) = Inr r"
  shows "list_all (\<lambda>d. case d of Model k \<Rightarrow> objGet k models \<noteq> None
                              | Inherited k \<Rightarrow> inherited k models) (get r)"
proof -
  from forEachE_add_inv [OF assms resolverInv_new] have
    inv: "resolverInv r" and m: "r_models r = models"
    by (simp_all add: DependenciesResolver_def)
  then show ?thesis
    by (auto simp: resolverInv_def get_def list_all_iff found_def inherited_def)
qed

lemma resolver_list_distinct:
  assumes run: "forEachE add cs (DependenciesResolver models ownType) = Inr r"
    and n: "Null \<notin> set cs \<or> objGet ''null'' models = None"
    and u: "Undefined \<notin> set cs \<or> ownType = Undefined \<or> objGet ''undefined'' models = None"
  shows "distinct (get r)"
proof -
  from forEachE_add_inv [OF run resolverInv_new] have
    inv: "resolverInv r" and m: "r_models r = models" and own: "r_ownType r = ownType"
    and sub: "set (dependencyNames r) \<subseteq> {d. \<exists>c \<in> set cs. removeBrackets c = Inr d}"
    by (simp_all add: DependenciesResolver_def)
  have str: "\<exists>s. x = Str s" if "x \<in> set (dependencyNames r)" for x
  proof (cases x)
    case Undefined
    with that sub have "Undefined \<in> set cs" by (auto dest: removeBrackets_Undefined)
    moreover from that inv own Undefined have "ownType \<noteq> Undefined"
      by (auto simp: resolverInv_def list_all_iff)
    moreover from that inv m Undefined have "objGet ''undefined'' models \<noteq> None"
      by (auto simp: resolverInv_def list_all_iff inherited_def objectPrototype_def)
    ultimately show ?thesis using u by simp
  next
    case Null
    with that sub have "Null \<in> set cs" by (auto dest: removeBrackets_Null)
    moreover from that inv m Null have "objGet ''null'' models \<noteq> None"
      by (auto simp: resolverInv_def list_all_iff inherited_def objectPrototype_def)
    ultimately show ?thesis using n by simp
  next
    case (Str s)
    then show ?thesis by simp
  next
    case (Inline ts d)
    with that inv show ?thesis by (auto simp: resolverInv_def list_all_iff isInline_def)
  qed
  have "inj_on (\<lambda>d. found models (toStr d)) (set (dependencyNames r))"
  proof (rule inj_onI)
    fix a b assume a: "a \<in> set (dependencyNames r)" and b: "b \<in> set (dependencyNames r)"
      and eq: "found models (toStr a) = found models (toStr b)"
    from eq have "toStr a = toStr b" by (auto simp: found_def split: if_splits)
    with str [OF a] str [OF b] show "a = b" by auto
  qed
  with inv m show ?thesis by (simp add: resolverInv_def get_def distinct_map)
qed

subsection \<open>Descriptions that are not strings\<close>

text \<open>
  A definition whose \<open>description\<close> is a number: \<open>toComments\<close> throws, and so does
  \<open>processModels\<close>.
\<close>

lemma processModels_description_not_a_string:
  "processModels
     \<lparr>sw_definitions =
        [(''M'', \<lparr>d_description = NotAString, d_allOf = None, d_type = Some ''object'',
                  d_properties = None, d_required = None, d_enum = None\<rparr>)],
      sw_paths = [], sw_at = (\<lambda>ref. None)\<rparr>
   = Inl TypeError"
  by (simp add: object_simps model_simps)

subsection \<open>The lists the program assigns are lists of resolvers\<close>

lemma forEachE_append:
  "forEachE f (xs @ ys) s = (case forEachE f xs s of Inl e \<Rightarrow> Inl e | Inr s' \<Rightarrow> forEachE f ys s')"
  by (induction xs arbitrary: s) (auto split: sum.splits)

lemma forEachE_adds:
  assumes "\<And>x r r'. f x r = Inr r' \<Longrightarrow> \<exists>cs. forEachE add cs r = Inr r'"
  shows "forEachE f xs r = Inr r' \<Longrightarrow> \<exists>cs. forEachE add cs r = Inr r'"
proof (induction xs arbitrary: r)
  case Nil
  then have "forEachE add [] r = Inr r'" by simp
  then show ?case by blast
next
  case (Cons x xs)
  from Cons.prems obtain r1 where r1: "f x r = Inr r1" "forEachE f xs r1 = Inr r'"
    by (auto split: sum.splits)
  from assms [OF r1(1)] obtain cs1 where cs1: "forEachE add cs1 r = Inr r1" by blast
  from Cons.IH [OF r1(2)] obtain cs2 where cs2: "forEachE add cs2 r1 = Inr r'" by blast
  from cs1 cs2 have "forEachE add (cs1 @ cs2) r = Inr r'" by (simp add: forEachE_append)
  then show ?case by blast
qed

lemma add_adds: "add c r = Inr r' \<Longrightarrow> \<exists>cs. forEachE add cs r = Inr r'"
proof -
  assume "add c r = Inr r'"
  then have "forEachE add [c] r = Inr r'" by simp
  then show ?thesis by blast
qed

lemma addPropertyType_adds: "addPropertyType p r = Inr r' \<Longrightarrow> \<exists>cs. forEachE add cs r = Inr r'"
  by (cases "propertyTypeV p") (auto simp: addPropertyType_def intro: add_adds)

lemma addResponseValue_adds: "addResponseValue cv r = Inr r' \<Longrightarrow> \<exists>cs. forEachE add cs r = Inr r'"
  by (cases "snd cv") (auto simp: addResponseValue_def intro: add_adds split: jsType.splits)

lemma addOperation_adds:
  assumes "addOperation op r = Inr r'"
  shows "\<exists>cs. forEachE add cs r = Inr r'"
proof -
  from assms obtain r1 where
    r1: "forEachE addResponseValue (operationResponses op) r = Inr r1"
    and r2: "forEachE (\<lambda>param. add (paramType param)) (operationParameters op) r1 = Inr r'"
    by (auto simp: addOperation_def split: sum.splits)
  from r1 have "\<exists>cs. forEachE add cs r = Inr r1"
    by (rule forEachE_adds [rotated]) (rule addResponseValue_adds)
  then obtain cs1 where cs1: "forEachE add cs1 r = Inr r1" by blast
  from r2 have "\<exists>cs. forEachE add cs r1 = Inr r'"
    by (rule forEachE_adds [rotated]) (rule add_adds)
  then obtain cs2 where cs2: "forEachE add cs2 r1 = Inr r'" by blast
  from cs1 cs2 have "forEachE add (cs1 @ cs2) r = Inr r'" by (simp add: forEachE_append)
  then show ?thesis by blast
qed

text \<open>Every list assigned to \<open>serviceDependencies\<close> is the list of a resolver.\<close>

lemma processPath_assigns_resolver_list:
  assumes "processPath globalName sw models up st = Inr (services', cur)"
  shows "\<exists>tag descriptor cs r.
           cur = ServiceOf tag \<and> objGet tag services' = Some descriptor
           \<and> forEachE add cs (DependenciesResolver models Undefined) = Inr r
           \<and> serviceDependencies descriptor = Some (get r)"
proof -
  from assms obtain services tag descriptor r where
    cur: "cur = ServiceOf tag"
    and r: "forEachE addOperation (serviceOperations descriptor) (DependenciesResolver models Undefined) = Inr r"
    and s': "services' = objSet tag (descriptor\<lparr>serviceDependencies := Some (get r)\<rparr>) services"
    by (auto simp: processPath_def split: sum.splits option.splits prod.splits current.splits)
  from r have "\<exists>cs. forEachE add cs (DependenciesResolver models Undefined) = Inr r"
    by (rule forEachE_adds [rotated]) (rule addOperation_adds)
  then obtain cs where "forEachE add cs (DependenciesResolver models Undefined) = Inr r" by blast
  with cur s' show ?thesis by (auto simp: objGet_objSet)
qed

text \<open>Every list assigned to \<open>modelDependencies\<close> is the list of a resolver.\<close>

lemma resolveDependencies_assigns_resolver_list:
  assumes "resolveDependencies name models = Inr models'"
  shows "models' = models
       \<or> (\<exists>model cs r. objGet name models = Some model
            \<and> forEachE add cs (DependenciesResolver models (Str (modelName model))) = Inr r
            \<and> models' = objSet name (model\<lparr>modelDependencies := Some (get r)\<rparr>) models)"
proof (cases "objGet name models")
  case None
  with assms show ?thesis by (simp add: resolveDependencies_def)
next
  case (Some model)
  show ?thesis
  proof (cases "modelIsObject model")
    case False
    with Some assms show ?thesis by (simp add: resolveDependencies_def)
  next
    case True
    let ?r0 = "DependenciesResolver models (Str (modelName model))"
    from assms Some True obtain r1 r2 r3 where
      r1: "(case modelParent model of None \<Rightarrow> Inr ?r0
            | Some parentName \<Rightarrow> if parentName = [] then Inr ?r0 else add (Str parentName) ?r0) = Inr r1"
      and r2: "forEachE (\<lambda>child. add (Str child)) (modelSubclasses model) r1 = Inr r2"
      and r3: "forEachE addPropertyType (orEmpty (modelProperties model)) r2 = Inr r3"
      and m': "models' = objSet name (model\<lparr>modelDependencies := Some (get r3)\<rparr>) models"
      by (auto simp: resolveDependencies_def split: sum.splits)
    from r1 have "\<exists>cs. forEachE add cs ?r0 = Inr r1"
    proof (cases "modelParent model")
      case None
      with r1 have "forEachE add [] ?r0 = Inr r1" by simp
      then show ?thesis by blast
    next
      case (Some parentName)
      show ?thesis
      proof (cases "parentName = []")
        case True
        with Some r1 have "forEachE add [] ?r0 = Inr r1" by simp
        then show ?thesis by blast
      next
        case False
        with Some r1 have "forEachE add [Str parentName] ?r0 = Inr r1" by simp
        then show ?thesis by blast
      qed
    qed
    then obtain cs1 where cs1: "forEachE add cs1 ?r0 = Inr r1" by blast
    from r2 have "\<exists>cs. forEachE add cs r1 = Inr r2"
      by (rule forEachE_adds [rotated]) (rule add_adds)
    then obtain cs2 where cs2: "forEachE add cs2 r1 = Inr r2" by blast
    from r3 have "\<exists>cs. forEachE add cs r2 = Inr r3"
      by (rule forEachE_adds [rotated]) (rule addPropertyType_adds)
    then obtain cs3 where cs3: "forEachE add cs3 r2 = Inr r3" by blast
    from cs1 cs2 cs3 have "forEachE add (cs1 @ cs2 @ cs3) ?r0 = Inr r3"
      by (simp add: forEachE_append)
    with Some m' show ?thesis by blast
  qed
qed

section \<open>The properties of the specification\<close>

subsection \<open>Path expressions\<close>

text \<open>
  C1. \<open>toPathExpression\<close> calls \<open>replace\<close> with a string pattern, which replaces
  one occurrence: on the template \<open>/a/{var1}/b/{var2}\<close> of the function's own comment
  the first placeholder becomes \<open>${params.var1}\<close> and the second stays \<open>{var2}\<close>.
  The expression the specification and the comment give, with both replaced, is not what the
  function returns.
\<close>

theorem toPathExpression_replaces_first_placeholder_only:
  "toPathExpression (Some ''/a/{var1}/b/{var2}'') = ''/a/${params.var1}/b/{var2}''
   \<and> toPathExpression (Some ''/a/{var1}/b/{var2}'') \<noteq> ''/a/${params.var1}/b/${params.var2}''"
  by (simp add: toPathExpression_def replace_def)

subsection \<open>Operations without exactly one tag\<close>

text \<open>
  C2. A document whose first path holds one operation with \<open>tags: []\<close> and whose
  second path holds a well-formed operation. The log statement of the drop reads the
  undeclared \<open>name\<close>, so under Node.js \<open>processServices\<close> throws a
  \<open>ReferenceError\<close> there. Were \<open>name\<close> bound to some \<open>n\<close>, the drop itself would
  pass, and the code after the loop over the methods would throw a \<open>TypeError\<close>,
  \<open>descriptor\<close> being still \<open>undefined\<close>. Either way the run ends before the
  operation of the second path is processed.
\<close>

theorem processServices_untagged_operation_aborts:
  "processServices None
      \<lparr>sw_definitions = [],
       sw_paths =
         [(''/a'', Some [(''get'', Some \<lparr>o_description = NoDescription, o_tags = Some [], o_operationId = Some ''a'',
                                        o_parameters = Some [], o_responses = Some []\<rparr>)]),
          (''/b'', Some [(''get'', Some \<lparr>o_description = NoDescription, o_tags = Some [''T''], o_operationId = Some ''b'',
                                        o_parameters = Some [], o_responses = Some []\<rparr>)])],
       sw_at = (\<lambda>ref. None)\<rparr> [] = Inl ReferenceError
   \<and> processServices (Some n)
      \<lparr>sw_definitions = [],
       sw_paths =
         [(''/a'', Some [(''get'', Some \<lparr>o_description = NoDescription, o_tags = Some [], o_operationId = Some ''a'',
                                        o_parameters = Some [], o_responses = Some []\<rparr>)]),
          (''/b'', Some [(''get'', Some \<lparr>o_description = NoDescription, o_tags = Some [''T''], o_operationId = Some ''b'',
                                        o_parameters = Some [], o_responses = Some []\<rparr>)])],
       sw_at = (\<lambda>ref. None)\<rparr> [] = Inl TypeError"
  by (simp add: object_simps service_simps model_simps Let_def)

subsection \<open>The result type of an operation\<close>

text \<open>
  C3, as the specification states it, fails: with a schema under \<open>200\<close> that resolves to
  \<open>A\<close> and one under \<open>201\<close> that resolves to \<open>B\<close>, both codes match the pattern,
  the first of them is \<open>200\<close>, and the result type is \<open>B\<close>.
\<close>

theorem processResponses_first_2xx_is_overwritten:
  "filter successful
     [(''200'', \<lparr>r_schema = Some (Schema (Some ''#/definitions/A'') None None None None None)\<rparr>),
      (''201'', \<lparr>r_schema = Some (Schema (Some ''#/definitions/B'') None None None None None)\<rparr>)]
   = [(''200'', \<lparr>r_schema = Some (Schema (Some ''#/definitions/A'') None None None None None)\<rparr>),
      (''201'', \<lparr>r_schema = Some (Schema (Some ''#/definitions/B'') None None None None None)\<rparr>)]
   \<and> propertyType (Some (Schema (Some ''#/definitions/A'') None None None None None)) = Str ''A''
   \<and> objGet ''resultType''
        (processResponses
           \<lparr>o_description = NoDescription, o_tags = Some [''T''], o_operationId = Some ''op'', o_parameters = Some [],
            o_responses = Some
              [(''200'', \<lparr>r_schema = Some (Schema (Some ''#/definitions/A'') None None None None None)\<rparr>),
               (''201'', \<lparr>r_schema = Some (Schema (Some ''#/definitions/B'') None None None None None)\<rparr>)]\<rparr>)
      = Some (ResultType (Str ''B''))"
  by (simp add: successful_def object_simps service_simps model_simps Let_def)

text \<open>
  C3, amended. Every matching code that carries a schema assigns \<open>resultType\<close>, so the
  last of them in enumeration order supplies it; a type that is \<open>null\<close> or empty counts
  as none, and with no such code the result type is \<open>void\<close>. (When no status code is
  spelled \<open>resultType\<close>, which would share the member.)
\<close>

theorem processResponses_last_2xx_supplies_resultType:
  assumes "''resultType'' \<notin> fst ` set (orEmpty (o_responses def))"
  shows "objGet ''resultType'' (processResponses def) =
     Some (ResultType
       (case filter successful (orEmpty (o_responses def)) of
          [] \<Rightarrow> Str ''void''
        | xs \<Rightarrow> (if truthy (propertyType (r_schema (snd (last xs))))
                 then propertyType (r_schema (snd (last xs))) else Str ''void'')))"
  using fold_recordResponse_resultType [OF assms, of "[]"]
  by (auto simp: processResponses_def Let_def objGet_objSet split: list.splits)
    (simp_all add: objGet_def)

theorem processResponses_last_2xx_witness:
  "''resultType'' \<notin> fst ` set (orEmpty (Some
       [(''200'', \<lparr>r_schema = Some (Schema (Some ''#/definitions/A'') None None None None None)\<rparr>),
        (''204'', \<lparr>r_schema = None\<rparr>),
        (''404'', \<lparr>r_schema = Some (Schema None None (Some ''string'') None None None)\<rparr>)]))
   \<and> objGet ''resultType''
        (processResponses
           \<lparr>o_description = NoDescription, o_tags = Some [''T''], o_operationId = Some ''op'', o_parameters = Some [],
            o_responses = Some
              [(''200'', \<lparr>r_schema = Some (Schema (Some ''#/definitions/A'') None None None None None)\<rparr>),
               (''204'', \<lparr>r_schema = None\<rparr>),
               (''404'', \<lparr>r_schema = Some (Schema None None (Some ''string'') None None None)\<rparr>)]\<rparr>)
      = Some (ResultType (Str ''A''))"
  using processResponses_last_2xx_supplies_resultType
    [of "\<lparr>o_description = NoDescription, o_tags = Some [''T''], o_operationId = Some ''op'', o_parameters = Some [],
            o_responses = Some
              [(''200'', \<lparr>r_schema = Some (Schema (Some ''#/definitions/A'') None None None None None)\<rparr>),
               (''204'', \<lparr>r_schema = None\<rparr>),
               (''404'', \<lparr>r_schema = Some (Schema None None (Some ''string'') None None None)\<rparr>)]\<rparr>"]
  by (simp add: successful_def orEmpty_def truthy_def simpleRef_def substrFrom_def isDigit_def)

subsection \<open>The order of a model's properties\<close>

text \<open>
  C4. The comparison function of the sort reads \<open>modelName\<close>, which a property
  descriptor does not have, so it answers 0 for every pair and the sort moves nothing:
  the properties stay in the order of the definition, for every definition. For an object
  definition that declares \<open>b\<close> before \<open>a\<close>, \<open>processModels\<close> gives \<open>[b, a]\<close>, which
  is not ascending by name. (The flag is on the final element, \<open>a\<close>, and on no other.)
\<close>

theorem processModels_properties_keep_declaration_order:
  "map propertyName (orderProperties properties) = map (\<lambda>kv. propertyName (snd kv)) properties
   \<and> processModels
     \<lparr>sw_definitions =
        [(''M'', \<lparr>d_description = NoDescription, d_allOf = None, d_type = Some ''object'',
                  d_properties = Some [(''b'', \<lparr>pr_description = NoDescription,
                             pr_fragment = Schema None None (Some ''string'') None None None\<rparr>),
                                       (''a'', \<lparr>pr_description = NoDescription,
                             pr_fragment = Schema None None (Some ''string'') None None None\<rparr>)],
                  d_required = None, d_enum = None\<rparr>)],
      sw_paths = [], sw_at = (\<lambda>ref. None)\<rparr>
   = Inr [(''M'', \<lparr>modelName = ''M'', modelParent = None, modelIsObject = True, modelIsEnum = False,
                   modelProperties = Some
                     [\<lparr>propertyName = ''b'', propertyRequired = False,
                       propertyTypeV = Str ''string'', prop_last = False\<rparr>,
                      \<lparr>propertyName = ''a'', propertyRequired = False,
                       propertyTypeV = Str ''string'', prop_last = True\<rparr>],
                   modelEnumValues = None, modelSubclasses = [], modelDependencies = Some []\<rparr>)]"
proof
  have "map propertyName (markLast (\<lambda>p. p\<lparr>prop_last := True\<rparr>) (map snd properties))
        = map propertyName (map snd properties)"
    by (rule markLast_map) simp
  then show "map propertyName (orderProperties properties) = map (\<lambda>kv. propertyName (snd kv)) properties"
    by (simp add: orderProperties_def arraySort_propertyCompare)
next
  show "processModels
     \<lparr>sw_definitions =
        [(''M'', \<lparr>d_description = NoDescription, d_allOf = None, d_type = Some ''object'',
                  d_properties = Some [(''b'', \<lparr>pr_description = NoDescription,
                             pr_fragment = Schema None None (Some ''string'') None None None\<rparr>),
                                       (''a'', \<lparr>pr_description = NoDescription,
                             pr_fragment = Schema None None (Some ''string'') None None None\<rparr>)],
                  d_required = None, d_enum = None\<rparr>)],
      sw_paths = [], sw_at = (\<lambda>ref. None)\<rparr>
   = Inr [(''M'', \<lparr>modelName = ''M'', modelParent = None, modelIsObject = True, modelIsEnum = False,
                   modelProperties = Some
                     [\<lparr>propertyName = ''b'', propertyRequired = False,
                       propertyTypeV = Str ''string'', prop_last = False\<rparr>,
                      \<lparr>propertyName = ''a'', propertyRequired = False,
                       propertyTypeV = Str ''string'', prop_last = True\<rparr>],
                   modelEnumValues = None, modelSubclasses = [], modelDependencies = Some []\<rparr>)]"
    by (simp add: object_simps model_simps)
qed

subsection \<open>The tag filter\<close>

text \<open>
  C5, as the specification states it, fails for an empty \<open>includeTags\<close>: the empty array is
  truthy, no name is a member of it, and the only service is removed.
\<close>

theorem applyTagFilter_empty_includeTags_removes_every_service:
  "applyTagFilter []
     [(''Pets'', \<lparr>serviceName = ''Pets'', serviceOperations = [], serviceDependencies = Some []\<rparr>)]
     (Some []) False
   = Inr ([], [])"
  by (simp add: applyTagFilter_def filterService_def included_def objDelete_def)

text \<open>
  C5, amended. The services left by \<open>applyTagFilter\<close> are exactly those that
  \<open>included\<close> accepts, in their order: all of them when \<open>includeTags\<close> is absent,
  and otherwise, the empty list too, those whose name is a member of it. When unused
  models are to be removed the filter reads the dependencies of every service it keeps,
  so these must have been assigned.
\<close>

theorem applyTagFilter_retains_included_services:
  assumes "ignoreUnusedModels \<Longrightarrow>
             \<forall>ns \<in> set services. included includeTags (fst ns) \<longrightarrow> serviceDependencies (snd ns) \<noteq> None"
  shows "\<exists>models'. applyTagFilter models services includeTags ignoreUnusedModels
           = Inr (models', filter (\<lambda>ns. included includeTags (fst ns)) services)"
proof -
  from filterService_loop [of ignoreUnusedModels services includeTags services "[]", OF assms]
  obtain used where
    "forEachE (filterService includeTags ignoreUnusedModels) services (services, [])
       = Inr (filter (\<lambda>kv. included includeTags (fst kv) \<or> fst kv \<notin> fst ` set services) services, used)"
    by blast
  moreover have "filter (\<lambda>kv. included includeTags (fst kv) \<or> fst kv \<notin> fst ` set services) services
        = filter (\<lambda>ns. included includeTags (fst ns)) services"
    by (intro filter_cong) auto
  ultimately have loop: "forEachE (filterService includeTags ignoreUnusedModels) services (services, [])
       = Inr (filter (\<lambda>ns. included includeTags (fst ns)) services, used)"
    by simp
  obtain alld where
    "forEachO (\<lambda>dep. collectDependencies (length models + 2) models (deref models dep)) used [] = Some alld"
    using forEachO_collect_total [of models used "[]"] by blast
  with loop show ?thesis by (simp add: applyTagFilter_def)
qed

theorem applyTagFilter_retains_included_services_witness:
  "(\<exists>models'. applyTagFilter
       [(''Pet'', \<lparr>modelName = ''Pet'', modelParent = None, modelIsObject = True, modelIsEnum = False,
                   modelProperties = Some [], modelEnumValues = None, modelSubclasses = [],
                   modelDependencies = Some []\<rparr>)]
       [(''Pets'', \<lparr>serviceName = ''Pets'', serviceOperations = [], serviceDependencies = Some [Model ''Pet'']\<rparr>),
        (''Users'', \<lparr>serviceName = ''Users'', serviceOperations = [], serviceDependencies = None\<rparr>)]
       (Some [''Pets'']) True
     = Inr (models',
            [(''Pets'', \<lparr>serviceName = ''Pets'', serviceOperations = [], serviceDependencies = Some [Model ''Pet'']\<rparr>)]))
   \<and> included (Some [''Pets'']) ''Pets'' \<and> \<not> included (Some [''Pets'']) ''Users''
   \<and> included None ''Users''"
  using applyTagFilter_retains_included_services
    [of True
       "[(''Pets'', \<lparr>serviceName = ''Pets'', serviceOperations = [], serviceDependencies = Some [Model ''Pet'']\<rparr>),
         (''Users'', \<lparr>serviceName = ''Users'', serviceOperations = [], serviceDependencies = None\<rparr>)]"
       "Some [''Pets'']"
       "[(''Pet'', \<lparr>modelName = ''Pet'', modelParent = None, modelIsObject = True, modelIsEnum = False,
                   modelProperties = Some [], modelEnumValues = None, modelSubclasses = [],
                   modelDependencies = Some []\<rparr>)]"]
  by (simp add: included_def)

subsection \<open>The dependencies of a service\<close>

text \<open>
  C6. The dependencies are resolved after the loop over the methods of a path, once, for
  the descriptor that \<open>descriptor\<close> holds then, which is the service of the last
  operation of the path. Here one path has a \<open>get\<close> tagged \<open>A\<close>, with a body
  parameter of type \<open>M\<close>, and a \<open>post\<close> tagged \<open>B\<close>: the dependencies of \<open>B\<close>
  are assigned and those of \<open>A\<close> never are, where the specification gives \<open>[M]\<close>.
\<close>

theorem processServices_dependencies_of_earlier_service_unassigned:
  "processServices None
      \<lparr>sw_definitions = [],
       sw_paths =
         [(''/x'', Some [(''get'', Some \<lparr>o_description = NoDescription, o_tags = Some [''A''], o_operationId = Some ''a'',
                            o_parameters = Some [\<lparr>p_description = NoDescription, p_name = ''body'', p_in = ''body'', p_required = True,
                               p_schema = Some (Schema (Some ''#/definitions/M'') None None None None None),
                               p_fragment = Schema None None None None None None\<rparr>],
                            o_responses = Some []\<rparr>),
                         (''post'', Some \<lparr>o_description = NoDescription, o_tags = Some [''B''], o_operationId = Some ''b'',
                            o_parameters = Some [], o_responses = Some []\<rparr>)])],
       sw_at = (\<lambda>ref. None)\<rparr>
      [(''M'', \<lparr>modelName = ''M'', modelParent = None, modelIsObject = True, modelIsEnum = False,
                modelProperties = Some [], modelEnumValues = None, modelSubclasses = [],
                modelDependencies = Some []\<rparr>)]
    = Inr [(''A'', \<lparr>serviceName = ''A'',
          serviceOperations =
            [\<lparr>operationName = ''a'',
                operationPath = ''/x'', operationPathExpression = ''/x'',
                operationResultType = Str ''void'',
                operationParameters =
                  [\<lparr>paramName = ''body'', paramIn = ''body'',
                      paramRequired = True, paramIsArray = False,
                      paramType = Str ''M'', param_last = True\<rparr>],
                operationResponses =
                  [(''resultType'', ResultType (Str ''void''))],
                operationIsVoid = True, operationIsString = False,
                operationIsNumber = False, operationIsBoolean = False,
                operationIsEnum = False, operationIsObject = False,
                operationIsUnknown = False\<rparr>],
          serviceDependencies = None\<rparr>),
      (''B'',
       \<lparr>serviceName = ''B'',
          serviceOperations =
            [\<lparr>operationName = ''b'',
                operationPath = ''/x'', operationPathExpression = ''/x'',
                operationResultType = Str ''void'',
                operationParameters = [],
                operationResponses =
                  [(''resultType'', ResultType (Str ''void''))],
                operationIsVoid = True, operationIsString = False,
                operationIsNumber = False, operationIsBoolean = False,
                operationIsEnum = False, operationIsObject = False,
                operationIsUnknown = False\<rparr>],
          serviceDependencies = Some []\<rparr>)]"
  by (simp add: object_simps service_simps model_simps Let_def)

text \<open>
  A parameter of an inline object type ends the run as well: the resolver is handed the
  inline type itself, and \<open>removeBrackets\<close> calls \<open>indexOf\<close> on it.
\<close>

lemma processServices_inline_parameter_type_throws:
  "processServices None
      \<lparr>sw_definitions = [],
       sw_paths =
         [(''/x'', Some [(''get'', Some \<lparr>o_description = NoDescription, o_tags = Some [''A''], o_operationId = Some ''a'',
                            o_parameters = Some [\<lparr>p_description = NoDescription, p_name = ''body'', p_in = ''body'', p_required = True,
                               p_schema = Some (Schema None None (Some ''object'') None
                                   (Some [(''m'', Schema (Some ''#/definitions/M'') None None None None None)]) None),
                               p_fragment = Schema None None None None None None\<rparr>],
                            o_responses = Some []\<rparr>)])],
       sw_at = (\<lambda>ref. None)\<rparr>
      [(''M'', \<lparr>modelName = ''M'', modelParent = None, modelIsObject = True, modelIsEnum = False,
                modelProperties = Some [], modelEnumValues = None, modelSubclasses = [],
                modelDependencies = Some []\<rparr>)]
    = Inl TypeError"
  by (simp add: object_simps service_simps model_simps Let_def inlineObject_def inlineMember_def)

subsection \<open>The dependency closure\<close>

text \<open>
  C7. On every graph of descriptors, cyclic or not, from every starting model and every
  set already collected, \<open>collectDependencies\<close> returns: a recursion depth of the
  number of descriptors plus two is enough, a greater bound gives the same set, and that
  set holds what was collected before. A model that is \<open>undefined\<close> leaves the set as
  it is, and so does a model whose name is in the set already: no name is visited twice.
\<close>

theorem collectDependencies_terminates:
  "(\<exists>seen'. set seen \<subseteq> set seen'
       \<and> (\<forall>k. collectDependencies (length heap + 2 + k) heap model seen = Some seen'))
   \<and> collectDependencies (Suc fuel) heap UndefinedModel seen = Some seen
   \<and> collectDependencies (Suc fuel) heap (Descriptor m) (seen @ [Some (modelName m)])
       = Some (seen @ [Some (modelName m)])"
proof -
  obtain seen' where
    s: "collectDependencies (length heap + 2) heap model seen = Some seen'" "set seen \<subseteq> set seen'"
    using collectDependencies_outer [of heap model seen] by blast
  have "collectDependencies (length heap + 2 + k) heap model seen = Some seen'" for k
  proof (induction k)
    case 0
    with s show ?case by simp
  next
    case (Suc k)
    from collectDependencies_more_fuel [OF this] show ?case by simp
  qed
  with s show ?thesis by auto
qed

text \<open>
  Two models that depend on each other, the second also on itself, on a model that does
  not exist and on a member of \<open>Object.prototype\<close>.
\<close>

lemma collectDependencies_cycle:
  "collectDependencies 4
     [(''A'', \<lparr>modelName = ''A'', modelParent = None, modelIsObject = True, modelIsEnum = False,
               modelProperties = Some [], modelEnumValues = None, modelSubclasses = [],
               modelDependencies = Some [Model ''B'']\<rparr>),
      (''B'', \<lparr>modelName = ''B'', modelParent = None, modelIsObject = True, modelIsEnum = False,
               modelProperties = Some [], modelEnumValues = None, modelSubclasses = [],
               modelDependencies = Some [Model ''B'', Model ''Gone'', Inherited ''toString'', Model ''A'']\<rparr>)]
     (Descriptor \<lparr>modelName = ''A'', modelParent = None, modelIsObject = True, modelIsEnum = False,
               modelProperties = Some [], modelEnumValues = None, modelSubclasses = [],
               modelDependencies = Some [Model ''B'']\<rparr>) []
   = Some [Some ''A'', Some ''B'', None]"
  by (simp add: numeral_eq_Suc objGet_def setAdd_def deref_def)

subsection \<open>The order of an operation's parameters\<close>

text \<open>
  C8. The final order of the parameters of an operation is sorted by
  \<open>requiredFirstNameDescending\<close>: every required parameter comes before every optional
  one, and within each group the names descend. It holds the same parameters as before,
  and the flag of its final parameter is set. Three parameters named \<open>b\<close> (optional),
  \<open>a\<close> and \<open>c\<close> (required), given in that order, come out as \<open>c\<close>, \<open>a\<close>,
  \<open>b\<close>.
\<close>

theorem orderParameters_required_first_then_name_descending:
  "sorted_wrt requiredFirstNameDescending (orderParameters ps)
   \<and> mset (map (\<lambda>p. p\<lparr>param_last := True\<rparr>) (orderParameters ps))
       = mset (map (\<lambda>p. p\<lparr>param_last := True\<rparr>) ps)
   \<and> (ps \<noteq> [] \<longrightarrow> param_last (last (orderParameters ps)))
   \<and> (paramName pb = ''b'' \<and> \<not> paramRequired pb \<and> paramName pa = ''a'' \<and> paramRequired pa
        \<and> paramName pc = ''c'' \<and> paramRequired pc
      \<longrightarrow> map paramName (orderParameters [pb, pa, pc]) = [''c'', ''a'', ''b''])"
proof (intro conjI)
  show "sorted_wrt requiredFirstNameDescending (orderParameters ps)"
    unfolding orderParameters_def
    by (subst sorted_wrt_markLast) (simp_all add: requiredFirstNameDescending_def sorted_paramCompare)
  have "map (\<lambda>p. p\<lparr>param_last := True\<rparr>) (orderParameters ps)
        = map (\<lambda>p. p\<lparr>param_last := True\<rparr>) (arraySort paramCompare ps)"
    unfolding orderParameters_def by (rule markLast_map) simp
  then show "mset (map (\<lambda>p. p\<lparr>param_last := True\<rparr>) (orderParameters ps))
       = mset (map (\<lambda>p. p\<lparr>param_last := True\<rparr>) ps)"
    by (simp add: mset_arraySort)
  show "ps \<noteq> [] \<longrightarrow> param_last (last (orderParameters ps))"
  proof
    assume "ps \<noteq> []"
    then have "arraySort paramCompare ps \<noteq> []"
      using length_arraySort [of paramCompare ps] by (metis length_0_conv)
    then show "param_last (last (orderParameters ps))"
      unfolding orderParameters_def by (simp add: last_markLast)
  qed
  show "paramName pb = ''b'' \<and> \<not> paramRequired pb \<and> paramName pa = ''a'' \<and> paramRequired pa
        \<and> paramName pc = ''c'' \<and> paramRequired pc
      \<longrightarrow> map paramName (orderParameters [pb, pa, pc]) = [''c'', ''a'', ''b'']"
    by (simp add: orderParameters_def paramCompare_def markLast_def)
qed

theorem orderParameters_witness:
  "map paramName (orderParameters
      [\<lparr>paramName = ''b'', paramIn = ''query'', paramRequired = False, paramIsArray = False,
        paramType = Str ''string'', param_last = False\<rparr>,
       \<lparr>paramName = ''a'', paramIn = ''path'', paramRequired = True, paramIsArray = False,
        paramType = Str ''string'', param_last = False\<rparr>,
       \<lparr>paramName = ''c'', paramIn = ''query'', paramRequired = True, paramIsArray = False,
        paramType = Str ''number'', param_last = False\<rparr>]) = [''c'', ''a'', ''b'']
   \<and> map param_last (orderParameters
      [\<lparr>paramName = ''b'', paramIn = ''query'', paramRequired = False, paramIsArray = False,
        paramType = Str ''string'', param_last = False\<rparr>,
       \<lparr>paramName = ''a'', paramIn = ''path'', paramRequired = True, paramIsArray = False,
        paramType = Str ''string'', param_last = False\<rparr>,
       \<lparr>paramName = ''c'', paramIn = ''query'', paramRequired = True, paramIsArray = False,
        paramType = Str ''number'', param_last = False\<rparr>]) = [False, False, True]"
  using orderParameters_required_first_then_name_descending
    [of "[\<lparr>paramName = ''b'', paramIn = ''query'', paramRequired = False, paramIsArray = False,
        paramType = Str ''string'', param_last = False\<rparr>,
       \<lparr>paramName = ''a'', paramIn = ''path'', paramRequired = True, paramIsArray = False,
        paramType = Str ''string'', param_last = False\<rparr>,
       \<lparr>paramName = ''c'', paramIn = ''query'', paramRequired = True, paramIsArray = False,
        paramType = Str ''number'', param_last = False\<rparr>]"
       "\<lparr>paramName = ''b'', paramIn = ''query'', paramRequired = False, paramIsArray = False,
        paramType = Str ''string'', param_last = False\<rparr>"
       "\<lparr>paramName = ''a'', paramIn = ''path'', paramRequired = True, paramIsArray = False,
        paramType = Str ''string'', param_last = False\<rparr>"
       "\<lparr>paramName = ''c'', paramIn = ''query'', paramRequired = True, paramIsArray = False,
        paramType = Str ''number'', param_last = False\<rparr>"]
  by (simp add: orderParameters_def paramCompare_def markLast_def)

subsection \<open>The vendor type override\<close>

text \<open>
  C9. For an \<open>x-type\<close> of the form \<open>List<T>\<close>, whatever \<open>T\<close> is, \<open>propertyType\<close>
  returns \<open>T>[]\<close>: \<open>substr(6, length - 1)\<close> takes \<open>length - 1\<close> characters from
  position 6, which is the rest of the string with its closing \<open>>\<close>, where
  \<open>T\<close> alone was meant. For \<open>List<Foo>\<close> the result is \<open>Foo>[]\<close>, not \<open>Foo[]\<close>.
\<close>

theorem propertyType_xtype_List_keeps_closing_bracket:
  "propertyType (Some (Schema None (Some (''List<'' @ T @ ''>'')) ty items props addl))
     = Str (T @ ''>[]'')"
  using xTypeOverride_List [of T] by simp

subsection \<open>The lists of the resolver\<close>

text \<open>
  C10. Two inputs on which the list of a resolver is not a duplicate-free list of models
  of the mapping. First: a schema whose \<open>$ref\<close> is the empty string resolves to
  \<open>null\<close>; the resolver looks \<open>null\<close> up under the key \<open>null\<close> and records it,
  and the name \<open>null\<close>, not being strictly equal to it, passes the test for a name
  already recorded and is looked up and recorded again. With a model of that name and two
  parameters of these types, the model is twice in \<open>serviceDependencies\<close>. Second:
  a parameter whose type is named \<open>constructor\<close>, with no model of that name:
  \<open>this.models[dep]\<close> finds the member of \<open>Object.prototype\<close>, which is truthy, and
  the resolver lists it, though it is no model of the mapping.
\<close>

theorem processServices_lists_a_model_twice_and_a_prototype_member:
  "processServices None
      \<lparr>sw_definitions = [],
       sw_paths =
         [(''/x'', Some [(''get'', Some \<lparr>o_description = NoDescription,
                            o_tags = Some [''A''], o_operationId = Some ''a'',
                            o_parameters = Some
                              [\<lparr>p_description = NoDescription,
                                p_name = ''p'', p_in = ''body'', p_required = True,
                                p_schema = Some (Schema (Some []) None None None None None),
                                p_fragment = Schema None None None None None None\<rparr>,
                               \<lparr>p_description = NoDescription,
                                p_name = ''q'', p_in = ''query'', p_required = True,
                                p_schema = Some (Schema (Some ''#/definitions/null'') None None None None None),
                                p_fragment = Schema None None None None None None\<rparr>],
                            o_responses = Some []\<rparr>)])],
       sw_at = (\<lambda>ref. None)\<rparr>
      [(''null'', \<lparr>modelName = ''null'', modelParent = None, modelIsObject = True, modelIsEnum = False,
                modelProperties = Some [], modelEnumValues = None, modelSubclasses = [],
                modelDependencies = Some []\<rparr>)]
    = Inr [(''A'', \<lparr>serviceName = ''A'',
          serviceOperations =
            [\<lparr>operationName = ''a'',
                operationPath = ''/x'', operationPathExpression = ''/x'',
                operationResultType = Str ''void'',
                operationParameters =
                  [\<lparr>paramName = ''q'', paramIn = ''query'',
                      paramRequired = True, paramIsArray = False,
                      paramType = Str ''null'', param_last = False\<rparr>,
                   \<lparr>paramName = ''p'', paramIn = ''body'',
                      paramRequired = True, paramIsArray = False,
                      paramType = Null, param_last = True\<rparr>],
                operationResponses =
                  [(''resultType'', ResultType (Str ''void''))],
                operationIsVoid = True, operationIsString = False,
                operationIsNumber = False, operationIsBoolean = False,
                operationIsEnum = False, operationIsObject = False,
                operationIsUnknown = False\<rparr>],
          serviceDependencies = Some [Model ''null'', Model ''null'']\<rparr>)]
   \<and> processServices None
      \<lparr>sw_definitions = [],
       sw_paths =
         [(''/x'', Some [(''get'', Some \<lparr>o_description = NoDescription,
                            o_tags = Some [''A''], o_operationId = Some ''a'',
                            o_parameters = Some
                              [\<lparr>p_description = NoDescription,
                                p_name = ''p'', p_in = ''body'', p_required = True,
                                p_schema = Some (Schema (Some ''#/definitions/constructor'') None None None None None),
                                p_fragment = Schema None None None None None None\<rparr>],
                            o_responses = Some []\<rparr>)])],
       sw_at = (\<lambda>ref. None)\<rparr>
      []
    = Inr [(''A'', \<lparr>serviceName = ''A'',
          serviceOperations =
            [\<lparr>operationName = ''a'',
                operationPath = ''/x'', operationPathExpression = ''/x'',
                operationResultType = Str ''void'',
                operationParameters =
                  [\<lparr>paramName = ''p'', paramIn = ''body'',
                      paramRequired = True, paramIsArray = False,
                      paramType = Str ''constructor'', param_last = True\<rparr>],
                operationResponses =
                  [(''resultType'', ResultType (Str ''void''))],
                operationIsVoid = True, operationIsString = False,
                operationIsNumber = False, operationIsBoolean = False,
                operationIsEnum = False, operationIsObject = False,
                operationIsUnknown = False\<rparr>],
          serviceDependencies = Some [Inherited ''constructor'']\<rparr>)]"
  by (simp add: object_simps service_simps model_simps Let_def)

end
